theory Spec2Isabelle
  imports Complex_Main
begin

text \<open>
  A shallow embedding of OpenMOC's class Solver (src/Solver.cpp): the queries, the
  fixed-source check, the attachment of a track generator, the initialisation routines
  and the three source iteration solves, with the properties proved about them.
\<close>

section \<open>Errors, machine integers and array reads\<close>

text \<open>
  Modelled from the spec: \<^verbatim>\<open>log_printf\<close> (log.h, not among the sources) at level
  \<^verbatim>\<open>ERROR\<close> aborts the running call; the spec names the failures
  \<^verbatim>\<open>ConfigurationError\<close>, \<^verbatim>\<open>InvalidArgument\<close>, \<^verbatim>\<open>OutOfRange\<close> and
  \<^verbatim>\<open>NotReady\<close>, and each \<^verbatim>\<open>log_printf(ERROR, ...)\<close> of Solver.cpp is mapped to
  the kind its message describes.  \<open>MemoryFault\<close> is not a logged error: it marks a
  read or write through a null pointer or outside an array, which C++ leaves undefined.
\<close>

datatype error = ConfigurationError | InvalidArgument | OutOfRange | NotReady | MemoryFault

text \<open>
  A C++ \<^verbatim>\<open>int\<close> is modelled as a mathematical integer; the one subtraction of
  Solver.cpp that can leave the 32-bit range on an argument the caller chooses
  (\<^verbatim>\<open>group-1\<close>) is written with its two's-complement wrap-around, as are the
  products of two counts.
\<close>

definition is_int :: "int \<Rightarrow> bool" where
  "is_int x \<longleftrightarrow> - 2147483648 \<le> x \<and> x \<le> 2147483647"

definition wrap_int :: "int \<Rightarrow> int" where
  "wrap_int x = (x + 2147483648) mod 4294967296 - 2147483648"

text \<open>C++ integer division truncates towards zero.\<close>

definition trunc_div :: "int \<Rightarrow> int \<Rightarrow> int" where
  "trunc_div a b = (if (a < 0) = (b < 0) then \<bar>a\<bar> div \<bar>b\<bar> else - (\<bar>a\<bar> div \<bar>b\<bar>))"

text \<open>\<^verbatim>\<open>p[i] = v\<close>: the array with element \<open>i\<close> replaced, when \<open>i\<close> lies inside it.\<close>

definition write_at :: "'a list \<Rightarrow> int \<Rightarrow> 'a \<Rightarrow> error + 'a list" where
  "write_at xs i v = (if 0 \<le> i \<and> i < int (length xs) then Inr (xs[nat i := v]) else Inl MemoryFault)"

text \<open>\<^verbatim>\<open>p[i]\<close>: the element when \<open>i\<close> lies inside the array.\<close>

definition read_at :: "'a list \<Rightarrow> int \<Rightarrow> error + 'a" where
  "read_at xs i = (if 0 \<le> i \<and> i < int (length xs) then Inr (xs ! nat i) else Inl MemoryFault)"

text \<open>
  Modelled from the spec: the indexing macros \<^verbatim>\<open>_scalar_flux(r,e)\<close>,
  \<^verbatim>\<open>_fixed_sources(r,e)\<close> and \<^verbatim>\<open>_polar_weights(i,p)\<close> (Solver.h, not among the
  sources); the spec describes these fields as dense arrays indexed
  \<^verbatim>\<open>[FSR][energyGroup]\<close>, so they are tables of rows.
\<close>

definition read2 :: "'a list list \<Rightarrow> int \<Rightarrow> int \<Rightarrow> error + 'a" where
  "read2 a r e = (case read_at a r of Inl x \<Rightarrow> Inl x | Inr row \<Rightarrow> read_at row e)"

text \<open>
  Modelled from the spec: \<^verbatim>\<open>ONE_OVER_FOUR_PI\<close> and \<^verbatim>\<open>FOUR_PI\<close> (constants.h,
  not among the sources), the isotropic normalisation \<open>1/(4\<pi>)\<close> and its inverse.
  \<^verbatim>\<open>FP_PRECISION\<close> values are modelled as real numbers: rounding and overflow are
  outside the model.
\<close>

definition ONE_OVER_FOUR_PI :: real where
  "ONE_OVER_FOUR_PI = 1 / (4 * pi)"

definition FOUR_PI :: real where
  "FOUR_PI = 4 * pi"

text \<open>
  A floating-point division by zero does not raise: it gives an infinity or NaN, and so
  does every sum and product formed from that value.  Where Solver.cpp divides, the
  value is therefore a real number or \<open>NonFinite\<close>, and \<open>NonFinite\<close> stays
  \<open>NonFinite\<close> when a real number is added to it or multiplied with it.
\<close>

datatype fp = Finite real | NonFinite

definition fp_div :: "real \<Rightarrow> real \<Rightarrow> fp" where
  "fp_div x y = (if y = 0 then NonFinite else Finite (x / y))"

fun fp_add :: "fp \<Rightarrow> real \<Rightarrow> fp" where
  "fp_add (Finite x) y = Finite (x + y)"
| "fp_add NonFinite y = NonFinite"

fun fp_mul :: "fp \<Rightarrow> real \<Rightarrow> fp" where
  "fp_mul (Finite x) y = Finite (x * y)"
| "fp_mul NonFinite y = NonFinite"

section \<open>The collaborators of the Solver\<close>

text \<open>
  Material, PolarQuad, ExpEvaluator, Cmfd, Geometry and TrackGenerator are classes
  whose code is not among the sources.  Each is a record of what its getters return;
  a getter that returns a pointer to an array gives a list, one that takes arguments
  gives a function.
\<close>

record Material =
  mat_id :: int
  mat_fissionable :: bool
  mat_nu_sigma_f :: "real list"
  mat_chi :: "real list"
  mat_sigma_s :: "int \<Rightarrow> int \<Rightarrow> real"

record PolarQuad =
  pq_num_polar :: int
  pq_multiple :: "int \<Rightarrow> real"

record ExpEvaluator =
  exp_interpolate :: bool
  exp_max_optical_length :: real
  exp_precision :: real
  exp_polar_quad :: "PolarQuad option"

record Cmfd =
  cmfd_flux_update_on :: bool
  cmfd_num_FSRs :: int
  cmfd_FSR_volumes :: "real list option"
  cmfd_FSR_materials :: "Material option list option"
  cmfd_FSR_fluxes :: "real list list option"
  cmfd_polar_quad :: "PolarQuad option"

record Geometry =
  geo_num_FSRs :: int
  geo_num_groups :: int
  geo_num_materials :: int
  geo_cmfd :: "Cmfd option"
  geo_FSR_material :: "int \<Rightarrow> Material option"

datatype Track = Track int

record TrackGenerator =
  tg_contains_tracks :: bool
  tg_num_azim :: int
  tg_num_tracks_array :: "int list"
  tg_num_tracks :: int
  tg_tracks :: "Track list list"
  tg_geometry :: "Geometry option"
  tg_azim_weights :: "real list"
  tg_max_optical_length :: real
  tg_FSR_volumes :: "real list"

text \<open>
  \<^verbatim>\<open>&_track_generator->getTracks()[i][j]\<close>: the address of track \<open>j\<close> of azimuthal
  angle \<open>i\<close>.
\<close>

datatype track_ptr = TrackPtr int int

section \<open>Logging, timing and calls to collaborators\<close>

text \<open>
  What a call does beyond changing the Solver's fields (log lines below level ERROR,
  the Timer, calls into the collaborators) is appended to a trace, in program order.
\<close>

datatype log_level = DEBUG | INFO | NORMAL | WARNING

datatype arg = IntArg int | RealArg real

datatype event =
    Log log_level string "arg list"
  | TimerStart
  | TimerStop
  | TimerRecordSplit string
  | TimerClearSplit string
  | PQ_setNumPolarAngles int
  | PQ_initialize
  | EXP_setPolarQuadrature
  | EXP_setMaxOpticalLength real
  | EXP_initialize
  | TG_splitSegments real
  | CMFD_setNumFSRs int
  | CMFD_setFSRVolumes
  | CMFD_setFSRMaterials
  | CMFD_setFSRFluxes
  | CMFD_setPolarQuadrature
  | CMFD_initializeSurfaceCurrents
  | CMFD_computeKeff int
  | CMFD_updateBoundaryFlux

section \<open>The Solver\<close>

datatype residualType = SCALAR_FLUX | TOTAL_SOURCE | FISSION_SOURCE

text \<open>
  The fields of class Solver, in the order the constructor sets them; a pointer that
  may be \<^verbatim>\<open>NULL\<close> is an option.
\<close>

record Solver =
  num_materials :: int
  num_groups :: int
  num_azim :: int
  num_FSRs :: int
  num_fissionable_FSRs :: int
  FSR_volumes :: "real list option"
  FSR_materials :: "Material option list option"
  track_generator :: "TrackGenerator option"
  geometry :: "Geometry option"
  cmfd :: "Cmfd option"
  exp_evaluator :: ExpEvaluator
  tracks :: "track_ptr option list option"
  tot_num_tracks :: int
  polar_weights :: "real list list option"
  boundary_flux :: "real list option"
  boundary_leakage :: "real list option"
  scalar_flux :: "real list list option"
  old_scalar_flux :: "real list list option"
  fixed_sources :: "real list list option"
  reduced_sources :: "real list list option"
  user_polar_quad :: bool
  polar_quad :: PolarQuad
  num_polar :: int
  polar_times_groups :: int
  num_iterations :: int
  converge_thresh :: real
  k_eff :: real
  trace :: "event list"

text \<open>
  A member function that changes the Solver returns the new Solver; when it raises,
  it returns the error with the Solver as it stood at the raise.
\<close>

type_synonym outcome = "(error \<times> Solver) + Solver"

subsection \<open>Queries\<close>

text \<open>Solver::getFSRVolume.\<close>

definition getFSRVolume :: "Solver \<Rightarrow> int \<Rightarrow> error + real" where
  "getFSRVolume s fsr_id =
     (if fsr_id < 0 \<or> fsr_id > num_FSRs s then Inl OutOfRange
      else case FSR_volumes s of
             None \<Rightarrow> Inl NotReady
           | Some vols \<Rightarrow> read_at vols fsr_id)"

text \<open>Solver::getFSRScalarFlux.\<close>

definition getFSRScalarFlux :: "Solver \<Rightarrow> int \<Rightarrow> int \<Rightarrow> error + real" where
  "getFSRScalarFlux s fsr_id grp =
     (if fsr_id \<ge> num_FSRs s then Inl OutOfRange
      else if fsr_id < 0 then Inl OutOfRange
      else if wrap_int (grp - 1) \<ge> num_groups s then Inl OutOfRange
      else if grp \<le> 0 then Inl OutOfRange
      else case scalar_flux s of
             None \<Rightarrow> Inl NotReady
           | Some flux \<Rightarrow> read2 flux fsr_id (grp - 1))"

text \<open>
  The two accumulation loops of Solver::getFSRSource,
  \<^verbatim>\<open>for (int e=0; e < _num_groups; e++) source += ...\<close>.  The first runs before
  the division and adds real numbers; the second adds to what the division gave.
\<close>

function fission_loop :: "real list list \<Rightarrow> int \<Rightarrow> real list \<Rightarrow> int \<Rightarrow> int \<Rightarrow> real \<Rightarrow> error + real" where
  "fission_loop flux fsr_id nu_sigma_f n e source =
     (if e < n then
        (case read2 flux fsr_id e of
           Inl x \<Rightarrow> Inl x
         | Inr f \<Rightarrow>
             (case read_at nu_sigma_f e of
                Inl x \<Rightarrow> Inl x
              | Inr nu \<Rightarrow> fission_loop flux fsr_id nu_sigma_f n (e + 1) (source + f * nu)))
      else Inr source)"
  by pat_completeness auto
termination
  by (relation "measure (\<lambda>(flux, fsr_id, nu_sigma_f, n, e, source). nat (n - e))") auto

function scatter_loop :: "Material \<Rightarrow> real list list \<Rightarrow> int \<Rightarrow> int \<Rightarrow> int \<Rightarrow> int \<Rightarrow> fp \<Rightarrow> error + fp" where
  "scatter_loop material flux fsr_id grp n g source =
     (if g < n then
        (case read2 flux fsr_id g of
           Inl x \<Rightarrow> Inl x
         | Inr f \<Rightarrow>
             scatter_loop material flux fsr_id grp n (g + 1)
               (fp_add source (mat_sigma_s material g (grp - 1) * f)))
      else Inr source)"
  by pat_completeness auto
termination
  by (relation "measure (\<lambda>(material, flux, fsr_id, grp, n, g, source). nat (n - g))") auto

declare fission_loop.simps [simp del]
declare scatter_loop.simps [simp del]

text \<open>
  Solver::getFSRSource.  \<^verbatim>\<open>source /= _k_eff * chi[group-1]\<close> is the one division:
  with a zero divisor the value returned is not a finite number.
\<close>

definition getFSRSource :: "Solver \<Rightarrow> int \<Rightarrow> int \<Rightarrow> error + fp" where
  "getFSRSource s fsr_id grp =
     (if fsr_id \<ge> num_FSRs s then Inl OutOfRange
      else if fsr_id < 0 then Inl OutOfRange
      else if wrap_int (grp - 1) \<ge> num_groups s then Inl OutOfRange
      else if grp \<le> 0 then Inl OutOfRange
      else case scalar_flux s of
        None \<Rightarrow> Inl NotReady
      | Some flux \<Rightarrow>
         (case FSR_materials s of
            None \<Rightarrow> Inl MemoryFault
          | Some mats \<Rightarrow>
             (case read_at mats fsr_id of
                Inl x \<Rightarrow> Inl x
              | Inr None \<Rightarrow> Inl MemoryFault
              | Inr (Some material) \<Rightarrow>
                 (case (if mat_fissionable material then
                          (case fission_loop flux fsr_id (mat_nu_sigma_f material)
                                  (num_groups s) 0 0 of
                             Inl x \<Rightarrow> Inl x
                           | Inr fission \<Rightarrow>
                               (case read_at (mat_chi material) (grp - 1) of
                                  Inl x \<Rightarrow> Inl x
                                | Inr chi \<Rightarrow> Inr (fp_div fission (k_eff s * chi))))
                        else Inr (Finite 0)) of
                    Inl x \<Rightarrow> Inl x
                  | Inr source1 \<Rightarrow>
                     (case scatter_loop material flux fsr_id grp (num_groups s) 0 source1 of
                        Inl x \<Rightarrow> Inl x
                      | Inr source2 \<Rightarrow>
                         (case fixed_sources s of
                            None \<Rightarrow> Inl MemoryFault
                          | Some fixed \<Rightarrow>
                             (case read2 fixed fsr_id (grp - 1) of
                                Inl x \<Rightarrow> Inl x
                              | Inr q \<Rightarrow> Inr (fp_mul (fp_add source2 q) ONE_OVER_FOUR_PI))))))))"

subsection \<open>Fixed sources\<close>

text \<open>
  Solver::setFixedSourceByFSR: two checks and nothing else (its comment calls it a
  helper that performs the error checking for the subclasses, which store the source).
\<close>

definition setFixedSourceByFSR :: "Solver \<Rightarrow> int \<Rightarrow> int \<Rightarrow> real \<Rightarrow> outcome" where
  "setFixedSourceByFSR s fsr_id grp source =
     (if grp \<le> 0 \<or> grp > num_groups s then Inl (OutOfRange, s)
      else if fsr_id < 0 \<or> fsr_id \<ge> num_FSRs s then Inl (OutOfRange, s)
      else Inr s)"

subsection \<open>Attaching the track generator\<close>

definition emit :: "event \<Rightarrow> Solver \<Rightarrow> Solver" where
  "emit ev s = s\<lparr>trace := trace s @ [ev]\<rparr>"

text \<open>
  Solver::setGeometry.  The argument is the pointer the track generator returns; the
  call reads through it at once.
\<close>

definition setGeometry :: "Solver \<Rightarrow> Geometry option \<Rightarrow> outcome" where
  "setGeometry s geometry_ptr =
     (case geometry_ptr of
        None \<Rightarrow> Inl (MemoryFault, s)
      | Some geo \<Rightarrow>
          if geo_num_FSRs geo = 0 then Inl (ConfigurationError, s)
          else Inr (s\<lparr>geometry := Some geo,
                       cmfd := geo_cmfd geo,
                       num_FSRs := geo_num_FSRs geo,
                       num_groups := geo_num_groups geo,
                       polar_times_groups := wrap_int (geo_num_groups geo * num_polar s),
                       num_materials := geo_num_materials geo\<rparr>))"

text \<open>
  The nested loops of Solver::setTrackGenerator that fill \<^verbatim>\<open>_tracks\<close>; the pair is
  the array and \<^verbatim>\<open>counter\<close>.
\<close>

function tracks_inner ::
  "TrackGenerator \<Rightarrow> int \<Rightarrow> int \<Rightarrow> track_ptr option list \<times> int
     \<Rightarrow> error + (track_ptr option list \<times> int)" where
  "tracks_inner tg i j (arr, counter) =
     (case read_at (tg_num_tracks_array tg) i of
        Inl x \<Rightarrow> Inl x
      | Inr n \<Rightarrow>
          if j < n then
            (case read_at (tg_tracks tg) i of
               Inl x \<Rightarrow> Inl x
             | Inr row \<Rightarrow>
                 (case write_at arr counter (Some (TrackPtr i j)) of
                    Inl x \<Rightarrow> Inl x
                  | Inr arr' \<Rightarrow> tracks_inner tg i (j + 1) (arr', counter + 1)))
          else Inr (arr, counter))"
  by pat_completeness auto
termination
  by (relation "measure (\<lambda>(tg, i, j, ac).
        nat ((case read_at (tg_num_tracks_array tg) i of Inl x \<Rightarrow> 0 | Inr n \<Rightarrow> n) - j))") auto

declare tracks_inner.simps [simp del]

function tracks_outer ::
  "TrackGenerator \<Rightarrow> int \<Rightarrow> int \<Rightarrow> track_ptr option list \<times> int
     \<Rightarrow> error + (track_ptr option list \<times> int)" where
  "tracks_outer tg n_azim i ac =
     (if i < n_azim then
        (case tracks_inner tg i 0 ac of
           Inl x \<Rightarrow> Inl x
         | Inr ac' \<Rightarrow> tracks_outer tg n_azim (i + 1) ac')
      else Inr ac)"
  by pat_completeness auto
termination
  by (relation "measure (\<lambda>(tg, n_azim, i, ac). nat (n_azim - i))") auto

declare tracks_outer.simps [simp del]

text \<open>
  Solver::setTrackGenerator.  \<^verbatim>\<open>new Track*[n]\<close> gives \<open>n\<close> pointers that are not yet
  set (\<open>None\<close>); a negative \<open>n\<close> has no array to give.
\<close>

definition setTrackGenerator :: "Solver \<Rightarrow> TrackGenerator \<Rightarrow> outcome" where
  "setTrackGenerator s tg =
     (if \<not> tg_contains_tracks tg then Inl (ConfigurationError, s)
      else
        let s1 = s\<lparr>track_generator := Some tg,
                   num_azim := trunc_div (tg_num_azim tg) 2,
                   tot_num_tracks := tg_num_tracks tg\<rparr>
        in if tot_num_tracks s1 < 0 then Inl (MemoryFault, s1)
           else
             let s2 = s1\<lparr>tracks := Some (replicate (nat (tot_num_tracks s1)) None)\<rparr>
             in (case tracks_outer tg (num_azim s2) 0
                        (replicate (nat (tot_num_tracks s1)) None, 0) of
                   Inl x \<Rightarrow> Inl (x, s2)
                 | Inr (arr, counter) \<Rightarrow> setGeometry (s2\<lparr>tracks := Some arr\<rparr>) (tg_geometry tg)))"

subsection \<open>The pluggable part\<close>

text \<open>
  The pure virtual member functions of Solver (declared in Solver.h and implemented by
  the CPU and GPU subclasses, none of them among the sources) and the operations of the
  collaborators whose effect Solver.cpp does not determine.  Each is a parameter: a
  function on the Solver, or on the collaborator, about which nothing is assumed
  except that it returns.
\<close>

record Backend =
  initializeFluxArrays :: "Solver \<Rightarrow> Solver"
  initializeSourceArrays :: "Solver \<Rightarrow> Solver"
  flattenFSRFluxes :: "real \<Rightarrow> Solver \<Rightarrow> Solver"
  zeroTrackFluxes :: "Solver \<Rightarrow> Solver"
  normalizeFluxes :: "Solver \<Rightarrow> Solver"
  computeFSRSources :: "Solver \<Rightarrow> Solver"
  transportSweep :: "Solver \<Rightarrow> Solver"
  addSourceToScalarFlux :: "Solver \<Rightarrow> Solver"
  computeResidual :: "residualType \<Rightarrow> Solver \<Rightarrow> real"
  storeFSRFluxes :: "Solver \<Rightarrow> Solver"
  computeKeff :: "Solver \<Rightarrow> Solver"
  pq_initialize :: "PolarQuad \<Rightarrow> PolarQuad"
  exp_initialize :: "ExpEvaluator \<Rightarrow> ExpEvaluator"
  tg_splitSegments :: "real \<Rightarrow> TrackGenerator \<Rightarrow> TrackGenerator"
  cmfd_initializeSurfaceCurrents :: "Cmfd \<Rightarrow> Cmfd"
  cmfd_computeKeff :: "int \<Rightarrow> Solver \<Rightarrow> real \<times> Solver"
  cmfd_updateBoundaryFlux :: "Solver \<Rightarrow> Solver"

subsection \<open>Initialisation\<close>

definition and_then :: "outcome \<Rightarrow> (Solver \<Rightarrow> outcome) \<Rightarrow> outcome" where
  "and_then r f = (case r of Inl x \<Rightarrow> Inl x | Inr s \<Rightarrow> f s)"

text \<open>
  The loops of Solver::initializePolarQuadrature; the weights of one azimuthal angle
  are one row, filled in the order of \<open>p\<close>.
\<close>

function weights_inner ::
  "PolarQuad \<Rightarrow> real list \<Rightarrow> int \<Rightarrow> int \<Rightarrow> int \<Rightarrow> real list \<Rightarrow> error + real list" where
  "weights_inner pq azim_weights i n_polar p row =
     (if p < n_polar then
        (case read_at azim_weights i of
           Inl x \<Rightarrow> Inl x
         | Inr w \<Rightarrow>
             weights_inner pq azim_weights i n_polar (p + 1)
               (row @ [w * pq_multiple pq p * FOUR_PI]))
      else Inr row)"
  by pat_completeness auto
termination
  by (relation "measure (\<lambda>(pq, azim_weights, i, n_polar, p, row). nat (n_polar - p))") auto

declare weights_inner.simps [simp del]

function weights_outer ::
  "PolarQuad \<Rightarrow> real list \<Rightarrow> int \<Rightarrow> int \<Rightarrow> int \<Rightarrow> real list list
     \<Rightarrow> error + real list list" where
  "weights_outer pq azim_weights n_azim n_polar i rows =
     (if i < n_azim then
        (case weights_inner pq azim_weights i n_polar 0 [] of
           Inl x \<Rightarrow> Inl x
         | Inr row \<Rightarrow> weights_outer pq azim_weights n_azim n_polar (i + 1) (rows @ [row]))
      else Inr rows)"
  by pat_completeness auto
termination
  by (relation "measure (\<lambda>(pq, azim_weights, n_azim, n_polar, i, rows). nat (n_azim - i))") auto

declare weights_outer.simps [simp del]

text \<open>
  Solver::initializePolarQuadrature.  Modelled from the spec: PolarQuad's
  \<^verbatim>\<open>setNumPolarAngles\<close> (PolarQuad.h, not among the sources) binds the angle count.
\<close>

definition initializePolarQuadrature :: "Backend \<Rightarrow> Solver \<Rightarrow> outcome" where
  "initializePolarQuadrature b s =
     (case track_generator s of
        None \<Rightarrow> Inl (MemoryFault, s)
      | Some tg \<Rightarrow>
          let azim_weights = tg_azim_weights tg;
              s1 = emit (PQ_setNumPolarAngles (num_polar s))
                     (s\<lparr>polar_quad := (polar_quad s)\<lparr>pq_num_polar := num_polar s\<rparr>\<rparr>);
              s2 = emit PQ_initialize (s1\<lparr>polar_quad := pq_initialize b (polar_quad s1)\<rparr>);
              s3 = s2\<lparr>polar_times_groups := wrap_int (num_groups s2 * num_polar s2)\<rparr>
          in if wrap_int (num_azim s3 * num_polar s3) < 0
             then Inl (MemoryFault, s3\<lparr>polar_weights := None\<rparr>)
             else (case weights_outer (polar_quad s3) azim_weights (num_azim s3) (num_polar s3) 0 [] of
                     Inl x \<Rightarrow> Inl (x, s3\<lparr>polar_weights := None\<rparr>)
                   | Inr rows \<Rightarrow> Inr (s3\<lparr>polar_weights := Some rows\<rparr>)))"

text \<open>
  Solver::initializeExpEvaluator.  Modelled from the spec: ExpEvaluator's
  \<^verbatim>\<open>setPolarQuadrature\<close> and \<^verbatim>\<open>setMaxOpticalLength\<close> (ExpEvaluator.h, not among
  the sources) store their argument; \<^verbatim>\<open>std::min(a, b)\<close> is \<open>b\<close> when \<open>b < a\<close> and
  \<open>a\<close> otherwise.
\<close>

definition initializeExpEvaluator :: "Backend \<Rightarrow> Solver \<Rightarrow> outcome" where
  "initializeExpEvaluator b s =
     (let s1 = emit EXP_setPolarQuadrature
                 (s\<lparr>exp_evaluator := (exp_evaluator s)\<lparr>exp_polar_quad := Some (polar_quad s)\<rparr>\<rparr>)
      in if exp_interpolate (exp_evaluator s1) then
           (case track_generator s1 of
              None \<Rightarrow> Inl (MemoryFault, s1)
            | Some tg \<Rightarrow>
                let max_tau_a = tg_max_optical_length tg;
                    max_tau_b = exp_max_optical_length (exp_evaluator s1);
                    max_tau = (if max_tau_b < max_tau_a then max_tau_b else max_tau_a);
                    s2 = emit (TG_splitSegments max_tau)
                           (s1\<lparr>track_generator := Some (tg_splitSegments b max_tau tg)\<rparr>);
                    s3 = emit (EXP_setMaxOpticalLength max_tau)
                           (s2\<lparr>exp_evaluator :=
                                 (exp_evaluator s2)\<lparr>exp_max_optical_length := max_tau\<rparr>\<rparr>);
                    s4 = emit EXP_initialize
                           (s3\<lparr>exp_evaluator := exp_initialize b (exp_evaluator s3)\<rparr>)
                in Inr s4)
         else Inr s1)"

text \<open>The loop of Solver::initializeFSRs.\<close>

function initializeFSRs_loop :: "Geometry \<Rightarrow> int \<Rightarrow> int \<Rightarrow> Solver \<Rightarrow> outcome" where
  "initializeFSRs_loop geo n r s =
     (if r < n then
        (case FSR_materials s of
           None \<Rightarrow> Inl (MemoryFault, s)
         | Some mats \<Rightarrow>
             (case write_at mats r (geo_FSR_material geo r) of
                Inl x \<Rightarrow> Inl (x, s)
              | Inr mats' \<Rightarrow>
                  (case geo_FSR_material geo r of
                     None \<Rightarrow> Inl (MemoryFault, s\<lparr>FSR_materials := Some mats'\<rparr>)
                   | Some m \<Rightarrow>
                       (case FSR_volumes s of
                          None \<Rightarrow> Inl (MemoryFault, s\<lparr>FSR_materials := Some mats'\<rparr>)
                        | Some vols \<Rightarrow>
                            (case read_at vols r of
                               Inl x \<Rightarrow> Inl (x, s\<lparr>FSR_materials := Some mats'\<rparr>)
                             | Inr v \<Rightarrow>
                                 initializeFSRs_loop geo n (r + 1)
                                   (emit (Log DEBUG ''FSR ID = %d has Material ID = %d and volume = %f ''
                                            [IntArg r, IntArg (mat_id m), RealArg v])
                                      (s\<lparr>FSR_materials := Some mats'\<rparr>)))))))
      else Inr s)"
  by pat_completeness auto
termination
  by (relation "measure (\<lambda>(geo, n, r, s). nat (n - r))") auto

declare initializeFSRs_loop.simps [simp del]

text \<open>
  Solver::initializeFSRs; the loop bound \<^verbatim>\<open>_num_FSRs\<close> is not assigned inside the
  loop and is passed to it.
\<close>

definition initializeFSRs :: "Solver \<Rightarrow> outcome" where
  "initializeFSRs s =
     (let s1 = emit (Log INFO ''Initializing flat source regions...'' []) s
      in (case track_generator s1 of
            None \<Rightarrow> Inl (MemoryFault, s1\<lparr>FSR_volumes := None, FSR_materials := None\<rparr>)
          | Some tg \<Rightarrow>
              (let s2 = s1\<lparr>FSR_volumes := Some (tg_FSR_volumes tg)\<rparr>
               in if num_FSRs s2 < 0 then Inl (MemoryFault, s2\<lparr>FSR_materials := None\<rparr>)
                  else
                    (let s3 = s2\<lparr>FSR_materials := Some (replicate (nat (num_FSRs s2)) None),
                                num_fissionable_FSRs := 0\<rparr>
                     in (case geometry s3 of
                           None \<Rightarrow> (if 0 < num_FSRs s3 then Inl (MemoryFault, s3) else Inr s3)
                         | Some geo \<Rightarrow> initializeFSRs_loop geo (num_FSRs s3) 0 s3)))))"

text \<open>The loop of Solver::countFissionableFSRs.\<close>

function countFissionableFSRs_loop :: "int \<Rightarrow> int \<Rightarrow> Solver \<Rightarrow> outcome" where
  "countFissionableFSRs_loop n r s =
     (if r < n then
        (case FSR_materials s of
           None \<Rightarrow> Inl (MemoryFault, s)
         | Some mats \<Rightarrow>
             (case read_at mats r of
                Inl x \<Rightarrow> Inl (x, s)
              | Inr None \<Rightarrow> Inl (MemoryFault, s)
              | Inr (Some m) \<Rightarrow>
                  countFissionableFSRs_loop n (r + 1)
                    (if mat_fissionable m
                     then s\<lparr>num_fissionable_FSRs := num_fissionable_FSRs s + 1\<rparr>
                     else s)))
      else Inr s)"
  by pat_completeness auto
termination
  by (relation "measure (\<lambda>(n, r, s). nat (n - r))") auto

declare countFissionableFSRs_loop.simps [simp del]

text \<open>Solver::countFissionableFSRs.\<close>

definition countFissionableFSRs :: "Solver \<Rightarrow> outcome" where
  "countFissionableFSRs s =
     (let s1 = emit (Log INFO ''Counting fissionable FSRs...'' []) s
      in (case geometry s1 of
            None \<Rightarrow> Inl (MemoryFault, s1)
          | Some geo \<Rightarrow> countFissionableFSRs_loop (num_FSRs s1) 0 (s1\<lparr>num_fissionable_FSRs := 0\<rparr>)))"

text \<open>
  Solver::initializeCmfd.  Modelled from the spec: the setters of Cmfd (Cmfd.h, not
  among the sources) hand it the FSR count, volumes, materials, fluxes and the
  quadrature.
\<close>

definition initializeCmfd :: "Backend \<Rightarrow> Solver \<Rightarrow> outcome" where
  "initializeCmfd b s =
     (let s1 = emit (Log INFO ''Initializing CMFD...'' []) s
      in case cmfd s1 of
           None \<Rightarrow> Inl (MemoryFault, s1)
         | Some c \<Rightarrow>
             let c' = cmfd_initializeSurfaceCurrents b
                        (c\<lparr>cmfd_num_FSRs := num_FSRs s1,
                           cmfd_FSR_volumes := FSR_volumes s1,
                           cmfd_FSR_materials := FSR_materials s1,
                           cmfd_FSR_fluxes := scalar_flux s1,
                           cmfd_polar_quad := Some (polar_quad s1)\<rparr>)
             in Inr ((s1\<lparr>cmfd := Some c'\<rparr>)
                       \<lparr>trace := trace s1 @ [CMFD_setNumFSRs (num_FSRs s1), CMFD_setFSRVolumes,
                          CMFD_setFSRMaterials, CMFD_setFSRFluxes, CMFD_setPolarQuadrature,
                          CMFD_initializeSurfaceCurrents]\<rparr>))"

text \<open>Solver::clearTimerSplits.\<close>

definition clearTimerSplits :: "Solver \<Rightarrow> Solver" where
  "clearTimerSplits s = emit (TimerClearSplit ''Total time'') s"

subsection \<open>The three solves\<close>

definition record_total_time :: "Solver \<Rightarrow> Solver" where
  "record_total_time s = emit (TimerRecordSplit ''Total time'') (emit TimerStop s)"

text \<open>Solver::computeFlux, up to the source iteration loop.\<close>

definition computeFlux_init :: "Backend \<Rightarrow> Solver \<Rightarrow> bool \<Rightarrow> outcome" where
  "computeFlux_init b s only_fixed_source =
     (if track_generator s = None then Inl (ConfigurationError, s)
      else
        (let s1 = emit TimerStart
                    (clearTimerSplits (emit (Log NORMAL ''Computing the flux...'' []) s))
         in and_then (initializePolarQuadrature b s1) (\<lambda>s2.
            and_then (initializeExpEvaluator b s2) (\<lambda>s3.
              (let s4 = (if only_fixed_source \<or> num_iterations s3 = 0
                         then flattenFSRFluxes b 0 (initializeFluxArrays b s3)
                         else s3);
                   s5 = initializeSourceArrays b s4
               in and_then (initializeFSRs s5) (\<lambda>s6.
                  and_then (countFissionableFSRs s6) (\<lambda>s7.
                    Inr (computeFSRSources b (zeroTrackFluxes b s7)))))))))"

text \<open>
  The body of the loop of Solver::computeFlux down to its log line: the residual and
  the Solver after it.
\<close>

definition computeFlux_body :: "Backend \<Rightarrow> int \<Rightarrow> Solver \<Rightarrow> real \<times> Solver" where
  "computeFlux_body b i s =
     (let s1 = transportSweep b s;
          s2 = addSourceToScalarFlux b s1;
          residual = computeResidual b SCALAR_FLUX s2;
          s3 = storeFSRFluxes b s2
      in (residual,
          emit (Log NORMAL (''Iteration %d:'' @ [CHR 0x09] @ ''res = %1.3E'')
                  [IntArg i, RealArg residual]) s3))"

text \<open>The loop of Solver::computeFlux and what follows it.\<close>

function computeFlux_loop :: "Backend \<Rightarrow> int \<Rightarrow> int \<Rightarrow> Solver \<Rightarrow> Solver" where
  "computeFlux_loop b max_iters i s =
     (if i < max_iters then
        (case computeFlux_body b i s of
           (residual, s') \<Rightarrow>
             if i > 1 \<and> residual < converge_thresh s'
             then record_total_time (s'\<lparr>num_iterations := i\<rparr>)
             else computeFlux_loop b max_iters (i + 1) s')
      else record_total_time
             ((emit (Log WARNING ''Unable to converge the flux'' []) s)
                \<lparr>num_iterations := max_iters\<rparr>))"
  by pat_completeness auto
termination
  by (relation "measure (\<lambda>(b, max_iters, i, s). nat (max_iters - i))") auto

declare computeFlux_loop.simps [simp del]

text \<open>Solver::computeFlux.\<close>

definition computeFlux :: "Backend \<Rightarrow> Solver \<Rightarrow> int \<Rightarrow> bool \<Rightarrow> outcome" where
  "computeFlux b s max_iters only_fixed_source =
     and_then (computeFlux_init b s only_fixed_source)
       (\<lambda>s'. Inr (computeFlux_loop b max_iters 0 s'))"

text \<open>Solver::computeSource, up to the source iteration loop.\<close>

definition computeSource_init :: "Backend \<Rightarrow> Solver \<Rightarrow> real \<Rightarrow> outcome" where
  "computeSource_init b s k =
     (if track_generator s = None then Inl (ConfigurationError, s)
      else if k \<le> 0 then Inl (InvalidArgument, s)
      else
        (let s1 = emit TimerStart
                    (clearTimerSplits (emit (Log NORMAL ''Computing the source...'' []) s));
             s2 = s1\<lparr>k_eff := k\<rparr>
         in and_then (initializePolarQuadrature b s2) (\<lambda>s3.
            and_then (initializeExpEvaluator b s3) (\<lambda>s4.
            and_then (initializeFSRs (initializeSourceArrays b (initializeFluxArrays b s4))) (\<lambda>s5.
              Inr (zeroTrackFluxes b (flattenFSRFluxes b 1 s5)))))))"

definition computeSource_body :: "Backend \<Rightarrow> residualType \<Rightarrow> int \<Rightarrow> Solver \<Rightarrow> real \<times> Solver" where
  "computeSource_body b res_type i s =
     (let s1 = computeFSRSources b s;
          s2 = transportSweep b s1;
          s3 = addSourceToScalarFlux b s2;
          residual = computeResidual b res_type s3;
          s4 = storeFSRFluxes b s3
      in (residual,
          emit (Log NORMAL (''Iteration %d:'' @ [CHR 0x09] @ ''res = %1.3E'')
                  [IntArg i, RealArg residual]) s4))"

function computeSource_loop :: "Backend \<Rightarrow> residualType \<Rightarrow> int \<Rightarrow> int \<Rightarrow> Solver \<Rightarrow> Solver" where
  "computeSource_loop b res_type max_iters i s =
     (if i < max_iters then
        (case computeSource_body b res_type i s of
           (residual, s') \<Rightarrow>
             if i > 1 \<and> residual < converge_thresh s'
             then record_total_time (s'\<lparr>num_iterations := i\<rparr>)
             else computeSource_loop b res_type max_iters (i + 1) s')
      else record_total_time
             ((emit (Log WARNING ''Unable to converge the source'' []) s)
                \<lparr>num_iterations := max_iters\<rparr>))"
  by pat_completeness auto
termination
  by (relation "measure (\<lambda>(b, res_type, max_iters, i, s). nat (max_iters - i))") auto

declare computeSource_loop.simps [simp del]

text \<open>Solver::computeSource.\<close>

definition computeSource :: "Backend \<Rightarrow> Solver \<Rightarrow> int \<Rightarrow> real \<Rightarrow> residualType \<Rightarrow> outcome" where
  "computeSource b s max_iters k res_type =
     and_then (computeSource_init b s k)
       (\<lambda>s'. Inr (computeSource_loop b res_type max_iters 0 s'))"

text \<open>\<^verbatim>\<open>_cmfd != NULL && _cmfd->isFluxUpdateOn()\<close>.\<close>

definition cmfd_active :: "Solver \<Rightarrow> bool" where
  "cmfd_active s = (case cmfd s of None \<Rightarrow> False | Some c \<Rightarrow> cmfd_flux_update_on c)"

text \<open>Solver::computeEigenvalue, up to the source iteration loop.\<close>

definition computeEigenvalue_init :: "Backend \<Rightarrow> Solver \<Rightarrow> outcome" where
  "computeEigenvalue_init b s =
     (if track_generator s = None then Inl (ConfigurationError, s)
      else
        (let s1 = emit TimerStart
                    (clearTimerSplits (emit (Log NORMAL ''Computing the eigenvalue...'' []) s));
             s2 = s1\<lparr>k_eff := 1\<rparr>
         in and_then (initializePolarQuadrature b s2) (\<lambda>s3.
            and_then (initializeExpEvaluator b s3) (\<lambda>s4.
            and_then (initializeFSRs (initializeSourceArrays b (initializeFluxArrays b s4))) (\<lambda>s5.
            and_then (countFissionableFSRs s5) (\<lambda>s6.
            and_then (if cmfd_active s6 then initializeCmfd b s6 else Inr s6) (\<lambda>s7.
              Inr (zeroTrackFluxes b (flattenFSRFluxes b 1 s7)))))))))"

definition computeEigenvalue_body :: "Backend \<Rightarrow> residualType \<Rightarrow> int \<Rightarrow> Solver \<Rightarrow> real \<times> Solver" where
  "computeEigenvalue_body b res_type i s =
     (let s1 = normalizeFluxes b s;
          s2 = computeFSRSources b s1;
          s3 = transportSweep b s2;
          s4 = addSourceToScalarFlux b s3;
          residual = computeResidual b res_type s4;
          s5 = storeFSRFluxes b s4;
          s6 = (if cmfd_active s5 then
                  (case cmfd_computeKeff b i (emit (CMFD_computeKeff i) s5) of
                     (k, t) \<Rightarrow> cmfd_updateBoundaryFlux b (emit CMFD_updateBoundaryFlux (t\<lparr>k_eff := k\<rparr>)))
                else computeKeff b s5)
      in (residual,
          emit (Log NORMAL (''Iteration %d:'' @ [CHR 0x09] @ ''k_eff = %1.6f'' @ [CHR 0x09] @ ''res = %1.3E'')
                  [IntArg i, RealArg (k_eff s6), RealArg residual]) s6))"

function computeEigenvalue_loop :: "Backend \<Rightarrow> residualType \<Rightarrow> int \<Rightarrow> int \<Rightarrow> Solver \<Rightarrow> Solver" where
  "computeEigenvalue_loop b res_type max_iters i s =
     (if i < max_iters then
        (case computeEigenvalue_body b res_type i s of
           (residual, s') \<Rightarrow>
             if i > 1 \<and> residual < converge_thresh s'
             then record_total_time (s'\<lparr>num_iterations := i\<rparr>)
             else computeEigenvalue_loop b res_type max_iters (i + 1) s')
      else record_total_time
             ((emit (Log WARNING ''Unable to converge the source distribution'' []) s)
                \<lparr>num_iterations := max_iters\<rparr>))"
  by pat_completeness auto
termination
  by (relation "measure (\<lambda>(b, res_type, max_iters, i, s). nat (max_iters - i))") auto

declare computeEigenvalue_loop.simps [simp del]

text \<open>Solver::computeEigenvalue.\<close>

definition computeEigenvalue :: "Backend \<Rightarrow> Solver \<Rightarrow> int \<Rightarrow> residualType \<Rightarrow> outcome" where
  "computeEigenvalue b s max_iters res_type =
     and_then (computeEigenvalue_init b s)
       (\<lambda>s'. Inr (computeEigenvalue_loop b res_type max_iters 0 s'))"

subsection \<open>The storing override of the fixed-source setter\<close>



subsection \<open>Notions used to state the properties\<close>

text \<open>
  The entries written for azimuthal angle \<open>i\<close> with \<open>n\<close> tracks, in the order of the
  track index.
\<close>

definition track_row :: "int \<Rightarrow> int \<Rightarrow> track_ptr option list" where
  "track_row i n = map (\<lambda>j. Some (TrackPtr i j)) [0..n - 1]"




text \<open>
  Modelled from the spec: what the pure virtual helpers called before the loop of
  Solver::computeFlux do to the scalar flux (their code is in the subclasses, not among
  the sources).  After \<^verbatim>\<open>initializeFluxArrays\<close> and \<^verbatim>\<open>flattenFSRFluxes(v)\<close> every
  region and group holds \<open>v\<close> (the spec's normalisation invariant); the source arrays,
  the boundary fluxes and the source assembly read the scalar flux and do not write it
  (the spec's data model).
\<close>

definition flux_helpers_contract :: "Backend \<Rightarrow> bool" where
  "flux_helpers_contract b \<longleftrightarrow>
     (\<forall>v s. scalar_flux (flattenFSRFluxes b v (initializeFluxArrays b s)) =
              Some (replicate (nat (num_FSRs s)) (replicate (nat (num_groups s)) v)))
     \<and> (\<forall>s. scalar_flux (initializeSourceArrays b s) = scalar_flux s)
     \<and> (\<forall>s. scalar_flux (zeroTrackFluxes b s) = scalar_flux s)
     \<and> (\<forall>s. scalar_flux (computeFSRSources b s) = scalar_flux s)"

text \<open>The fields the initialisation routines of Solver.cpp leave alone.\<close>

definition same_problem :: "Solver \<Rightarrow> Solver \<Rightarrow> bool" where
  "same_problem s s' \<longleftrightarrow>
     scalar_flux s' = scalar_flux s \<and> num_iterations s' = num_iterations s
     \<and> num_FSRs s' = num_FSRs s \<and> num_groups s' = num_groups s"

section \<open>Example states\<close>

text \<open>A two-region, two-group Solver on which the queries can be evaluated.\<close>

definition ex_material :: Material where
  "ex_material = \<lparr> mat_id = 7, mat_fissionable = True, mat_nu_sigma_f = [2, 3],
     mat_chi = [1, 1 / 2],
     mat_sigma_s = (\<lambda>origin destination. if origin = destination then 1 else 2) \<rparr>"

definition ex_polar_quad :: PolarQuad where
  "ex_polar_quad = \<lparr> pq_num_polar = 3, pq_multiple = (\<lambda>p. 1 / 3) \<rparr>"

definition ex_solver :: Solver where
  "ex_solver = \<lparr> num_materials = 1, num_groups = 2, num_azim = 2, num_FSRs = 2,
     num_fissionable_FSRs = 2,
     FSR_volumes = Some [3 / 2, 5 / 2],
     FSR_materials = Some [Some ex_material, Some ex_material],
     track_generator = None, geometry = None, cmfd = None,
     exp_evaluator = \<lparr> exp_interpolate = True, exp_max_optical_length = 10,
       exp_precision = 1 / 100000, exp_polar_quad = None \<rparr>,
     tracks = None, tot_num_tracks = 0, polar_weights = None,
     boundary_flux = None, boundary_leakage = None,
     scalar_flux = Some [[1, 2], [3, 4]],
     old_scalar_flux = Some [[1, 2], [3, 4]],
     fixed_sources = Some [[0, 0], [0, 7]],
     reduced_sources = Some [[0, 0], [0, 0]],
     user_polar_quad = False, polar_quad = ex_polar_quad, num_polar = 3,
     polar_times_groups = 6, num_iterations = 5, converge_thresh = 1 / 100000,
     k_eff = 2, trace = [] \<rparr>"

text \<open>
  A track generator with four azimuthal angles (two of them stored), three tracks and a
  two-region geometry; the Solver above with it attached; and a backend whose sweep
  divides every scalar flux by 1000 and whose residual is the first scalar flux.
\<close>

definition ex_geometry :: Geometry where
  "ex_geometry = \<lparr> geo_num_FSRs = 2, geo_num_groups = 2, geo_num_materials = 1,
     geo_cmfd = None, geo_FSR_material = (\<lambda>r. Some ex_material) \<rparr>"

definition ex_track_generator :: TrackGenerator where
  "ex_track_generator = \<lparr> tg_contains_tracks = True, tg_num_azim = 4,
     tg_num_tracks_array = [2, 1], tg_num_tracks = 3,
     tg_tracks = [[Track 0, Track 1], [Track 2]],
     tg_geometry = Some ex_geometry, tg_azim_weights = [1 / 4, 1 / 4],
     tg_max_optical_length = 4, tg_FSR_volumes = [3 / 2, 5 / 2] \<rparr>"

definition ex_attached :: Solver where
  "ex_attached = ex_solver\<lparr> track_generator := Some ex_track_generator, num_azim := 2,
     tot_num_tracks := 3,
     tracks := Some [Some (TrackPtr 0 0), Some (TrackPtr 0 1), Some (TrackPtr 1 0)],
     geometry := Some ex_geometry, cmfd := None, num_FSRs := 2, num_groups := 2,
     polar_times_groups := 6, num_materials := 1 \<rparr>"

definition ex_backend :: Backend where
  "ex_backend = \<lparr>
     initializeFluxArrays = (\<lambda>s. s\<lparr>
        scalar_flux := Some (replicate (nat (num_FSRs s)) (replicate (nat (num_groups s)) 0)),
        old_scalar_flux := Some (replicate (nat (num_FSRs s)) (replicate (nat (num_groups s)) 0))\<rparr>),
     initializeSourceArrays = (\<lambda>s. s\<lparr>
        reduced_sources := Some (replicate (nat (num_FSRs s)) (replicate (nat (num_groups s)) 0))\<rparr>),
     flattenFSRFluxes = (\<lambda>v s. s\<lparr>
        scalar_flux := Some (replicate (nat (num_FSRs s)) (replicate (nat (num_groups s)) v))\<rparr>),
     zeroTrackFluxes = (\<lambda>s. s\<lparr>boundary_flux := Some []\<rparr>),
     normalizeFluxes = (\<lambda>s. s),
     computeFSRSources = (\<lambda>s. s),
     transportSweep = (\<lambda>s. s\<lparr>scalar_flux := map_option (map (map (\<lambda>x. x / 1000))) (scalar_flux s)\<rparr>),
     addSourceToScalarFlux = (\<lambda>s. s),
     computeResidual = (\<lambda>res_type s.
        case scalar_flux s of Some ((x # row) # rows) \<Rightarrow> x | _ \<Rightarrow> 0),
     storeFSRFluxes = (\<lambda>s. s\<lparr>old_scalar_flux := scalar_flux s\<rparr>),
     computeKeff = (\<lambda>s. s),
     pq_initialize = (\<lambda>pq. pq),
     exp_initialize = (\<lambda>ev. ev),
     tg_splitSegments = (\<lambda>tau tg. tg\<lparr>tg_max_optical_length := min tau (tg_max_optical_length tg)\<rparr>),
     cmfd_initializeSurfaceCurrents = (\<lambda>c. c),
     cmfd_computeKeff = (\<lambda>i s. (1, s)),
     cmfd_updateBoundaryFlux = (\<lambda>s. s) \<rparr>"

section \<open>Auxiliary lemmas\<close>

subsection \<open>Reads, guards and the accumulation loops\<close>

lemma read_at_Inl: "read_at xs i = Inl x \<Longrightarrow> x = MemoryFault"
  by (simp add: read_at_def split: if_splits)

lemma read2_Inl: "read2 a r e = Inl x \<Longrightarrow> x = MemoryFault"
  by (auto simp: read2_def split: sum.splits dest: read_at_Inl)

lemma fission_loop_Inl:
  "fission_loop flux fsr_id nu n e source = Inl x \<Longrightarrow> x = MemoryFault"
proof (induction flux fsr_id nu n e source rule: fission_loop.induct)
  case (1 flux fsr_id nu n e source)
  from "1.prems" show ?case
    by (subst (asm) fission_loop.simps)
       (auto split: if_splits sum.splits dest: read_at_Inl read2_Inl "1.IH")
qed

lemma scatter_loop_Inl:
  "scatter_loop m flux fsr_id grp n g source = Inl x \<Longrightarrow> x = MemoryFault"
proof (induction m flux fsr_id grp n g source rule: scatter_loop.induct)
  case (1 m flux fsr_id grp n g source)
  from "1.prems" show ?case
    by (subst (asm) scatter_loop.simps)
       (auto split: if_splits sum.splits dest: read2_Inl "1.IH")
qed

lemma wrap_int_pred:
  assumes "is_int grp" "0 < grp"
  shows "wrap_int (grp - 1) = grp - 1"
  using assms by (simp add: wrap_int_def is_int_def)

lemma group_check:
  assumes "is_int grp"
  shows "(wrap_int (grp - 1) \<ge> n \<or> grp \<le> 0) = (grp \<le> 0 \<or> grp > n)"
proof (cases "0 < grp")
  case True
  then show ?thesis using wrap_int_pred [OF assms True] by auto
next
  case False
  then show ?thesis by auto
qed

lemma int_interval_step: "e < n \<Longrightarrow> {e..<n} = insert e {e + 1..<n}" for e n :: int
  by auto

lemma fission_loop_sum:
  assumes "read_at flux fsr_id = Inr phi" "n \<le> int (length phi)" "n \<le> int (length nu)" "0 \<le> e"
  shows "fission_loop flux fsr_id nu n e source =
           Inr (source + (\<Sum>k = e..<n. phi ! nat k * nu ! nat k))"
  using assms
proof (induction flux fsr_id nu n e source rule: fission_loop.induct)
  case (1 flux fsr_id nu n e source)
  show ?case
  proof (cases "e < n")
    case True
    have r2: "read2 flux fsr_id e = Inr (phi ! nat e)"
      using True "1.prems" by (simp add: read2_def read_at_def)
    have rn: "read_at nu e = Inr (nu ! nat e)"
      using True "1.prems" by (simp add: read_at_def)
    have IH: "fission_loop flux fsr_id nu n (e + 1) (source + phi ! nat e * nu ! nat e) =
                Inr (source + phi ! nat e * nu ! nat e + (\<Sum>k = e + 1..<n. phi ! nat k * nu ! nat k))"
      using "1.IH" [OF True r2 rn] "1.prems" by simp
    show ?thesis
      by (subst fission_loop.simps) (simp add: True r2 rn IH int_interval_step [OF True])
  next
    case False
    then show ?thesis by (subst fission_loop.simps) simp
  qed
qed

lemma fp_add_add: "fp_add (fp_add x a) b = fp_add x (a + b)"
  by (cases x) simp_all

lemma fp_add_zero: "fp_add x 0 = x"
  by (cases x) simp_all

lemma scatter_loop_sum:
  assumes "read_at flux fsr_id = Inr phi" "n \<le> int (length phi)" "0 \<le> g"
  shows "scatter_loop m flux fsr_id grp n g source =
           Inr (fp_add source (\<Sum>k = g..<n. mat_sigma_s m k (grp - 1) * phi ! nat k))"
  using assms
proof (induction m flux fsr_id grp n g source rule: scatter_loop.induct)
  case (1 m flux fsr_id grp n g source)
  show ?case
  proof (cases "g < n")
    case True
    have r2: "read2 flux fsr_id g = Inr (phi ! nat g)"
      using True "1.prems" by (simp add: read2_def read_at_def)
    have IH: "scatter_loop m flux fsr_id grp n (g + 1)
                  (fp_add source (mat_sigma_s m g (grp - 1) * phi ! nat g)) =
                Inr (fp_add (fp_add source (mat_sigma_s m g (grp - 1) * phi ! nat g))
                       (\<Sum>k = g + 1..<n. mat_sigma_s m k (grp - 1) * phi ! nat k))"
      using "1.IH" [OF True r2] "1.prems" by simp
    show ?thesis
      by (subst scatter_loop.simps)
         (simp add: True r2 IH int_interval_step [OF True] fp_add_add)
  next
    case False
    then show ?thesis by (subst scatter_loop.simps) (simp add: fp_add_zero)
  qed
qed

lemma getFSRSource_parts:
  assumes range: "0 \<le> fsr_id" "fsr_id < num_FSRs s" "1 \<le> grp" "grp \<le> num_groups s" "is_int grp"
    and flux: "scalar_flux s = Some flux" "read_at flux fsr_id = Inr phi"
              "num_groups s \<le> int (length phi)"
    and mat: "FSR_materials s = Some mats" "read_at mats fsr_id = Inr (Some m)"
             "num_groups s \<le> int (length (mat_nu_sigma_f m))"
             "num_groups s \<le> int (length (mat_chi m))"
  shows "getFSRSource s fsr_id grp =
           (case fixed_sources s of
              None \<Rightarrow> Inl MemoryFault
            | Some fixed \<Rightarrow>
                (case read2 fixed fsr_id (grp - 1) of
                   Inl x \<Rightarrow> Inl x
                 | Inr q \<Rightarrow>
                     Inr (fp_mul
                            (fp_add
                               (fp_add
                                  (if mat_fissionable m
                                   then fp_div (\<Sum>e = 0..<num_groups s. phi ! nat e * mat_nu_sigma_f m ! nat e)
                                          (k_eff s * mat_chi m ! nat (grp - 1))
                                   else Finite 0)
                                  (\<Sum>e = 0..<num_groups s. phi ! nat e * mat_sigma_s m e (grp - 1)))
                               q)
                            ONE_OVER_FOUR_PI)))"
proof -
  have w: "wrap_int (grp - 1) = grp - 1"
    using range by (intro wrap_int_pred) auto
  have chi: "read_at (mat_chi m) (grp - 1) = Inr (mat_chi m ! nat (grp - 1))"
    using range mat by (simp add: read_at_def)
  have fis: "fission_loop flux fsr_id (mat_nu_sigma_f m) (num_groups s) 0 0 =
               Inr (\<Sum>e = 0..<num_groups s. phi ! nat e * mat_nu_sigma_f m ! nat e)"
    using fission_loop_sum [OF flux(2) flux(3) mat(3), of 0 0] by simp
  have sca: "scatter_loop m flux fsr_id grp (num_groups s) 0 source1 =
               Inr (fp_add source1 (\<Sum>e = 0..<num_groups s. phi ! nat e * mat_sigma_s m e (grp - 1)))"
    for source1
    using scatter_loop_sum [OF flux(2) flux(3), of 0 m grp source1]
    by (simp add: mult.commute)
  show ?thesis
    using range
    by (simp add: getFSRSource_def w flux(1) mat(1) mat(2) chi fis sca
          split: option.splits sum.splits)
qed



lemma int_interval_02: "{0..<2::int} = {0, 1}"
  by auto

subsection \<open>The track array\<close>

lemma write_at_Inr:
  "write_at xs i v = Inr ys \<Longrightarrow> 0 \<le> i \<and> nat i < length xs \<and> ys = xs[nat i := v]"
  by (auto simp: write_at_def split: if_splits)

lemma take_write:
  assumes "0 \<le> c" "nat c < length arr"
  shows "take (nat (c + 1)) (arr[nat c := v]) = take (nat c) arr @ [v]"
proof -
  have "nat (c + 1) = Suc (nat c)" using assms by simp
  then show ?thesis
    using assms by (simp add: take_Suc_conv_app_nth)
qed

lemma tracks_inner_result:
  assumes "tracks_inner tg i j (arr, c) = Inr (arr', c')" "0 \<le> c"
  shows "\<exists>n. read_at (tg_num_tracks_array tg) i = Inr n
           \<and> take (nat c') arr' = take (nat c) arr @ map (\<lambda>k. Some (TrackPtr i k)) [j..n - 1]
           \<and> length arr' = length arr \<and> c' = c + int (length [j..n - 1])"
  using assms
proof (induction tg i j "(arr, c)" arbitrary: arr c rule: tracks_inner.induct)
  case (1 tg i j arr c)
  from "1.prems"(1) obtain n where n: "read_at (tg_num_tracks_array tg) i = Inr n"
    by (subst (asm) tracks_inner.simps) (auto split: sum.splits)
  show ?case
  proof (cases "j < n")
    case True
    from "1.prems"(1) n True obtain row arr1 where
      row: "read_at (tg_tracks tg) i = Inr row" and
      w: "write_at arr c (Some (TrackPtr i j)) = Inr arr1" and
      rec: "tracks_inner tg i (j + 1) (arr1, c + 1) = Inr (arr', c')"
      by (subst (asm) tracks_inner.simps) (auto split: sum.splits)
    from write_at_Inr [OF w] have wc: "nat c < length arr" "arr1 = arr[nat c := Some (TrackPtr i j)]"
      by auto
    from "1.hyps" [OF n True row w rec] "1.prems"(2) n
    have IH: "take (nat c') arr' = take (nat (c + 1)) arr1 @ map (\<lambda>k. Some (TrackPtr i k)) [j + 1..n - 1]"
      "length arr' = length arr1" "c' = c + 1 + int (length [j + 1..n - 1])"
      by auto
    have up: "[j..n - 1] = j # [j + 1..n - 1]"
      using True by (simp add: upto_rec1)
    show ?thesis
      using IH wc n "1.prems"(2) True by (simp add: up take_write)
  next
    case False
    with "1.prems"(1) n have "arr' = arr" "c' = c"
      by (subst (asm) tracks_inner.simps; simp)+
    with False n show ?thesis by simp
  qed
qed

lemma tracks_outer_result:
  assumes "tracks_outer tg n_azim i (arr, c) = Inr (arr', c')" "0 \<le> c" "0 \<le> i"
  shows "take (nat c') arr' =
           take (nat c) arr @
           concat (map (\<lambda>k. track_row k (tg_num_tracks_array tg ! nat k)) [i..n_azim - 1])
         \<and> length arr' = length arr \<and> c \<le> c'"
  using assms
proof (induction tg n_azim i "(arr, c)" arbitrary: arr c rule: tracks_outer.induct)
  case (1 tg n_azim i arr c)
  show ?case
  proof (cases "i < n_azim")
    case True
    from "1.prems"(1) True obtain arr1 c1 where
      inner: "tracks_inner tg i 0 (arr, c) = Inr (arr1, c1)" and
      rec: "tracks_outer tg n_azim (i + 1) (arr1, c1) = Inr (arr', c')"
      by (subst (asm) tracks_outer.simps) (auto split: sum.splits)
    from tracks_inner_result [OF inner "1.prems"(2)] obtain n where
      n: "read_at (tg_num_tracks_array tg) i = Inr n" and
      t1: "take (nat c1) arr1 = take (nat c) arr @ track_row i n" and
      l1: "length arr1 = length arr" "c \<le> c1"
      by (fastforce simp: track_row_def)
    from n have nth: "tg_num_tracks_array tg ! nat i = n"
      by (auto simp: read_at_def split: if_splits)
    from "1.hyps" [OF True inner rec] "1.prems" l1
    have IH: "take (nat c') arr' =
           take (nat c1) arr1 @
           concat (map (\<lambda>k. track_row k (tg_num_tracks_array tg ! nat k)) [i + 1..n_azim - 1])"
      "length arr' = length arr1" "c1 \<le> c'"
      by auto
    have up: "[i..n_azim - 1] = i # [i + 1..n_azim - 1]"
      using True by (simp add: upto_rec1)
    show ?thesis
      using IH t1 l1 nth by (simp add: up)
  next
    case False
    with "1.prems"(1) have "arr' = arr" "c' = c"
      by (subst (asm) tracks_outer.simps; simp)+
    with False show ?thesis by simp
  qed
qed

lemma tracks_inner_ok:
  assumes "read_at (tg_num_tracks_array tg) i = Inr n"
    and "read_at (tg_tracks tg) i = Inr row"
    and "0 \<le> c" "nat c + length [j..n - 1] \<le> length arr"
  shows "\<exists>arr' c'. tracks_inner tg i j (arr, c) = Inr (arr', c')"
  using assms(3-)
proof (induction "nat (n - j)" arbitrary: j arr c)
  case 0
  then have "\<not> j < n" by simp
  then show ?case
    by (subst tracks_inner.simps) (simp add: assms(1))
next
  case (Suc k)
  then have lt: "j < n" by simp
  have up: "[j..n - 1] = j # [j + 1..n - 1]"
    using lt by (simp add: upto_rec1)
  have w: "write_at arr c (Some (TrackPtr i j)) = Inr (arr[nat c := Some (TrackPtr i j)])"
    using Suc.prems by (simp add: write_at_def up)
  have "\<exists>arr' c'. tracks_inner tg i (j + 1) (arr[nat c := Some (TrackPtr i j)], c + 1) = Inr (arr', c')"
  proof (rule Suc.hyps(1))
    show "k = nat (n - (j + 1))" using Suc.hyps(2) by simp
    show "0 \<le> c + 1" using Suc.prems by simp
    show "nat (c + 1) + length [j + 1..n - 1] \<le> length (arr[nat c := Some (TrackPtr i j)])"
      using Suc.prems by (simp add: up nat_add_distrib)
  qed
  then show ?case
    by (subst tracks_inner.simps) (simp add: assms(1,2) lt w)
qed

lemma tracks_outer_ok:
  assumes "0 \<le> i" "n_azim \<le> int (length (tg_num_tracks_array tg))"
    and "n_azim \<le> int (length (tg_tracks tg))"
    and "0 \<le> c"
    and "nat c + length (concat (map (\<lambda>k. track_row k (tg_num_tracks_array tg ! nat k))
                                   [i..n_azim - 1])) \<le> length arr"
  shows "\<exists>arr' c'. tracks_outer tg n_azim i (arr, c) = Inr (arr', c')"
  using assms(1,4,5)
proof (induction "nat (n_azim - i)" arbitrary: i arr c)
  case 0
  then have "\<not> i < n_azim" by simp
  then show ?case
    by (subst tracks_outer.simps) simp
next
  case (Suc k)
  then have lt: "i < n_azim" by simp
  have up: "[i..n_azim - 1] = i # [i + 1..n_azim - 1]"
    using lt by (simp add: upto_rec1)
  have rn: "read_at (tg_num_tracks_array tg) i = Inr (tg_num_tracks_array tg ! nat i)"
    using lt Suc.prems assms(2) by (simp add: read_at_def)
  have rr: "read_at (tg_tracks tg) i = Inr (tg_tracks tg ! nat i)"
    using lt Suc.prems assms(3) by (simp add: read_at_def)
  have "\<exists>arr1 c1. tracks_inner tg i 0 (arr, c) = Inr (arr1, c1)"
    using Suc.prems by (intro tracks_inner_ok [OF rn rr]) (simp_all add: up track_row_def)
  then obtain arr1 c1 where inner: "tracks_inner tg i 0 (arr, c) = Inr (arr1, c1)"
    by blast
  from tracks_inner_result [OF inner Suc.prems(2)] rn
  have l1: "length arr1 = length arr" "c \<le> c1"
    and c1: "nat c1 = nat c + length (track_row i (tg_num_tracks_array tg ! nat i))"
    using Suc.prems(2) by (auto simp: track_row_def nat_add_distrib)
  have "\<exists>arr' c'. tracks_outer tg n_azim (i + 1) (arr1, c1) = Inr (arr', c')"
  proof (rule Suc.hyps(1))
    show "k = nat (n_azim - (i + 1))" using Suc.hyps(2) by simp
    show "0 \<le> i + 1" using Suc.prems by simp
    show "0 \<le> c1" using l1 Suc.prems by simp
    show "nat c1 + length (concat (map (\<lambda>k. track_row k (tg_num_tracks_array tg ! nat k))
                                   [i + 1..n_azim - 1])) \<le> length arr1"
      using Suc.prems(3) c1 l1 by (simp add: up)
  qed
  then show ?case
    by (subst tracks_outer.simps) (simp add: lt inner)
qed

lemma setTrackGenerator_ok:
  assumes "tg_contains_tracks tg" "0 \<le> tg_num_tracks tg"
    and "trunc_div (tg_num_azim tg) 2 \<le> int (length (tg_num_tracks_array tg))"
    and "trunc_div (tg_num_azim tg) 2 \<le> int (length (tg_tracks tg))"
    and "length (concat (map (\<lambda>i. track_row i (tg_num_tracks_array tg ! nat i))
                           [0..trunc_div (tg_num_azim tg) 2 - 1])) \<le> nat (tg_num_tracks tg)"
    and "tg_geometry tg = Some geo" "geo_num_FSRs geo \<noteq> 0"
  shows "\<exists>s'. setTrackGenerator s tg = Inr s'"
proof -
  have "\<exists>arr c. tracks_outer tg (trunc_div (tg_num_azim tg) 2) 0
              (replicate (nat (tg_num_tracks tg)) None, 0) = Inr (arr, c)"
    using assms by (intro tracks_outer_ok) simp_all
  then obtain arr c where "tracks_outer tg (trunc_div (tg_num_azim tg) 2) 0
              (replicate (nat (tg_num_tracks tg)) None, 0) = Inr (arr, c)"
    by blast
  then show ?thesis
    using assms by (simp add: setTrackGenerator_def Let_def setGeometry_def)
qed

subsection \<open>What initialisation leaves alone\<close>

lemma initializePolarQuadrature_frame:
  "initializePolarQuadrature b s = Inr s' \<Longrightarrow> same_problem s s'"
  by (auto simp: initializePolarQuadrature_def same_problem_def emit_def Let_def
           split: option.splits if_splits sum.splits)

lemma initializeExpEvaluator_frame:
  "initializeExpEvaluator b s = Inr s' \<Longrightarrow> same_problem s s'"
  by (auto simp: initializeExpEvaluator_def same_problem_def emit_def Let_def
           split: option.splits if_splits)

lemma initializeFSRs_loop_frame:
  "initializeFSRs_loop geo n r s = Inr s' \<Longrightarrow> same_problem s s'"
proof (induction geo n r s rule: initializeFSRs_loop.induct)
  case (1 geo n r s)
  show ?case
  proof (cases "r < n")
    case True
    from "1.prems" True obtain mats mats' m vols v where
      h: "FSR_materials s = Some mats" "write_at mats r (geo_FSR_material geo r) = Inr mats'"
         "geo_FSR_material geo r = Some m" "FSR_volumes s = Some vols" "read_at vols r = Inr v"
      and rec: "initializeFSRs_loop geo n (r + 1)
                  (emit (Log DEBUG ''FSR ID = %d has Material ID = %d and volume = %f ''
                           [IntArg r, IntArg (mat_id m), RealArg v])
                     (s\<lparr>FSR_materials := Some mats'\<rparr>)) = Inr s'"
      by (subst (asm) initializeFSRs_loop.simps) (auto split: option.splits sum.splits)
    from "1.IH" [OF True h rec] show ?thesis
      by (simp add: same_problem_def emit_def)
  next
    case False
    with "1.prems" show ?thesis
      by (subst (asm) initializeFSRs_loop.simps) (simp add: same_problem_def)
  qed
qed

lemma initializeFSRs_frame:
  "initializeFSRs s = Inr s' \<Longrightarrow> same_problem s s'"
  by (auto simp: initializeFSRs_def Let_def emit_def same_problem_def
           split: option.splits if_splits dest!: initializeFSRs_loop_frame)

lemma countFissionableFSRs_loop_frame:
  "countFissionableFSRs_loop n r s = Inr s' \<Longrightarrow> same_problem s s'"
proof (induction n r s rule: countFissionableFSRs_loop.induct)
  case (1 n r s)
  show ?case
  proof (cases "r < n")
    case True
    from "1.prems" True obtain mats m where
      h: "FSR_materials s = Some mats" "read_at mats r = Inr (Some m)"
      and rec: "countFissionableFSRs_loop n (r + 1)
                    (if mat_fissionable m
                     then s\<lparr>num_fissionable_FSRs := num_fissionable_FSRs s + 1\<rparr>
                     else s) = Inr s'"
      by (subst (asm) countFissionableFSRs_loop.simps) (auto split: option.splits sum.splits)
    from "1.IH" [OF True h refl rec] show ?thesis
      by (simp add: same_problem_def split: if_splits)
  next
    case False
    with "1.prems" show ?thesis
      by (subst (asm) countFissionableFSRs_loop.simps) (simp add: same_problem_def)
  qed
qed

lemma countFissionableFSRs_frame:
  "countFissionableFSRs s = Inr s' \<Longrightarrow> same_problem s s'"
  by (auto simp: countFissionableFSRs_def Let_def emit_def same_problem_def
           split: option.splits dest!: countFissionableFSRs_loop_frame)

lemma and_then_Inr:
  "and_then r f = Inr s' \<Longrightarrow> \<exists>s1. r = Inr s1 \<and> f s1 = Inr s'"
  by (cases r) (simp_all add: and_then_def)

subsection \<open>The source iteration loops\<close>


subsection \<open>The example states evaluated\<close>

lemma ex_solver_fields:
  "num_groups ex_solver = 2" "num_FSRs ex_solver = 2" "num_iterations ex_solver = 5"
  "converge_thresh ex_solver = 1 / 100000" "scalar_flux ex_solver = Some [[1, 2], [3, 4]]"
  "track_generator ex_solver = None" "num_polar ex_solver = 3"
  by (simp_all add: ex_solver_def)

lemma ex_attached_fields:
  "num_groups ex_attached = 2" "num_FSRs ex_attached = 2" "num_iterations ex_attached = 5"
  "converge_thresh ex_attached = 1 / 100000" "scalar_flux ex_attached = Some [[1, 2], [3, 4]]"
  "track_generator ex_attached = Some ex_track_generator" "num_polar ex_attached = 3"
  "num_azim ex_attached = 2" "geometry ex_attached = Some ex_geometry"
  "cmfd ex_attached = None" "trace ex_attached = []"
  "exp_evaluator ex_attached = \<lparr> exp_interpolate = True, exp_max_optical_length = 10,
       exp_precision = 1 / 100000, exp_polar_quad = None \<rparr>"
  "polar_quad ex_attached = ex_polar_quad"
  by (simp_all add: ex_attached_def ex_solver_def)

lemma ex_backend_contract: "flux_helpers_contract ex_backend"
  by (simp add: flux_helpers_contract_def ex_backend_def)

lemma ex_init_kept:
  "\<exists>s'. computeFlux_init ex_backend ex_attached False = Inr s'"
  by (simp add: computeFlux_init_def and_then_def Let_def ex_attached_fields
        initializePolarQuadrature_def initializeExpEvaluator_def initializeFSRs_def
        countFissionableFSRs_def emit_def clearTimerSplits_def
        ex_backend_def ex_track_generator_def ex_geometry_def ex_material_def ex_polar_quad_def
        weights_outer.simps weights_inner.simps initializeFSRs_loop.simps
        countFissionableFSRs_loop.simps read_at_def write_at_def wrap_int_def numeral_eq_Suc)

lemma ex_init_zeroed:
  "\<exists>s'. computeFlux_init ex_backend ex_attached True = Inr s'"
  by (simp add: computeFlux_init_def and_then_def Let_def ex_attached_fields
        initializePolarQuadrature_def initializeExpEvaluator_def initializeFSRs_def
        countFissionableFSRs_def emit_def clearTimerSplits_def
        ex_backend_def ex_track_generator_def ex_geometry_def ex_material_def ex_polar_quad_def
        weights_outer.simps weights_inner.simps initializeFSRs_loop.simps
        countFissionableFSRs_loop.simps read_at_def write_at_def wrap_int_def numeral_eq_Suc)




section \<open>Properties\<close>



text \<open>
  C2: for \<open>fsr_id\<close> in \<open>[0, num_FSRs)\<close> and \<open>group\<close> in \<open>[1, num_groups]\<close>,
  once the scalar flux, the FSR materials and the fixed sources are in place,
  getFSRSource returns the fission sum \<open>\<Sum>e. flux[fsr_id][e] * nuSigmaF[e]\<close> divided by
  \<open>k_eff * chi[group]\<close> (zero for a material that is not fissionable), plus the
  in-scatter sum \<open>\<Sum>e. flux[fsr_id][e] * sigmaS(e \<rightarrow> group)\<close>, plus the fixed source
  of the region and group, all times \<open>1/(4\<pi>)\<close>.  When the material is fissionable and
  \<open>k_eff * chi[group]\<close> is zero, that division has a zero divisor, and the value
  returned is what it gives: not a finite number.
\<close>

theorem getFSRSource_formula:
  assumes range: "0 \<le> fsr_id" "fsr_id < num_FSRs s" "1 \<le> grp" "grp \<le> num_groups s" "is_int grp"
    and flux: "scalar_flux s = Some flux" "read_at flux fsr_id = Inr phi"
              "num_groups s \<le> int (length phi)"
    and mat: "FSR_materials s = Some mats" "read_at mats fsr_id = Inr (Some m)"
             "num_groups s \<le> int (length (mat_nu_sigma_f m))"
             "num_groups s \<le> int (length (mat_chi m))"
    and fixed: "fixed_sources s = Some fixed" "read2 fixed fsr_id (grp - 1) = Inr q"
  shows "getFSRSource s fsr_id grp =
           Inr (if mat_fissionable m \<and> k_eff s * mat_chi m ! nat (grp - 1) = 0
                then NonFinite
                else Finite
                  (((if mat_fissionable m
                     then (\<Sum>e = 0..<num_groups s. phi ! nat e * mat_nu_sigma_f m ! nat e)
                            / (k_eff s * mat_chi m ! nat (grp - 1))
                     else 0)
                    + (\<Sum>e = 0..<num_groups s. phi ! nat e * mat_sigma_s m e (grp - 1))
                    + q) * (1 / (4 * pi))))"
proof (cases "mat_fissionable m \<and> k_eff s * mat_chi m ! nat (grp - 1) = 0")
  case True
  then show ?thesis
    using getFSRSource_parts [OF range flux mat] fixed
    by (simp add: fp_div_def)
next
  case False
  then show ?thesis
    using getFSRSource_parts [OF range flux mat] fixed
    by (auto simp: fp_div_def ONE_OVER_FOUR_PI_def)
qed

theorem getFSRSource_formula_witness:
  "getFSRSource ex_solver 1 2 = Inr (Finite (35 * (1 / (4 * pi))))
   \<and> getFSRSource (ex_solver\<lparr>FSR_materials :=
         Some [Some ex_material, Some (ex_material\<lparr>mat_chi := [1, 0]\<rparr>)]\<rparr>) 1 2 = Inr NonFinite"
proof -
  have "getFSRSource ex_solver 1 2 =
           Inr (if mat_fissionable ex_material \<and> k_eff ex_solver * mat_chi ex_material ! nat (2 - 1) = 0
                then NonFinite
                else Finite
                  (((if mat_fissionable ex_material
                     then (\<Sum>e = 0..<num_groups ex_solver. [3, 4] ! nat e * mat_nu_sigma_f ex_material ! nat e)
                            / (k_eff ex_solver * mat_chi ex_material ! nat (2 - 1))
                     else 0)
                    + (\<Sum>e = 0..<num_groups ex_solver. [3, 4] ! nat e * mat_sigma_s ex_material e (2 - 1))
                    + 7) * (1 / (4 * pi))))"
    by (rule getFSRSource_formula [where flux = "[[1, 2], [3, 4]]"
            and mats = "[Some ex_material, Some ex_material]"
            and fixed = "[[0, 0], [0, 7]]"])
       (simp_all add: ex_solver_def ex_material_def read_at_def read2_def is_int_def)
  then have a: "getFSRSource ex_solver 1 2 = Inr (Finite (35 * (1 / (4 * pi))))"
    by (simp add: ex_solver_def ex_material_def int_interval_02)
  have "getFSRSource (ex_solver\<lparr>FSR_materials :=
            Some [Some ex_material, Some (ex_material\<lparr>mat_chi := [1, 0]\<rparr>)]\<rparr>) 1 2 =
           Inr (if mat_fissionable (ex_material\<lparr>mat_chi := [1, 0]\<rparr>)
                   \<and> k_eff ex_solver * mat_chi (ex_material\<lparr>mat_chi := [1, 0]\<rparr>) ! nat (2 - 1) = 0
                then NonFinite
                else Finite
                  (((if mat_fissionable (ex_material\<lparr>mat_chi := [1, 0]\<rparr>)
                     then (\<Sum>e = 0..<num_groups ex_solver.
                              [3, 4] ! nat e * mat_nu_sigma_f (ex_material\<lparr>mat_chi := [1, 0]\<rparr>) ! nat e)
                            / (k_eff ex_solver * mat_chi (ex_material\<lparr>mat_chi := [1, 0]\<rparr>) ! nat (2 - 1))
                     else 0)
                    + (\<Sum>e = 0..<num_groups ex_solver.
                         [3, 4] ! nat e * mat_sigma_s (ex_material\<lparr>mat_chi := [1, 0]\<rparr>) e (2 - 1))
                    + 7) * (1 / (4 * pi))))"
    using getFSRSource_formula [where s = "ex_solver\<lparr>FSR_materials :=
            Some [Some ex_material, Some (ex_material\<lparr>mat_chi := [1, 0]\<rparr>)]\<rparr>"
            and fsr_id = 1 and grp = 2 and flux = "[[1, 2], [3, 4]]" and phi = "[3, 4]"
            and mats = "[Some ex_material, Some (ex_material\<lparr>mat_chi := [1, 0]\<rparr>)]"
            and m = "ex_material\<lparr>mat_chi := [1, 0]\<rparr>"
            and fixed = "[[0, 0], [0, 7]]" and q = 7]
    by (simp add: ex_solver_def ex_material_def read_at_def read2_def is_int_def)
  then have b: "getFSRSource (ex_solver\<lparr>FSR_materials :=
            Some [Some ex_material, Some (ex_material\<lparr>mat_chi := [1, 0]\<rparr>)]\<rparr>) 1 2 = Inr NonFinite"
    by (simp add: ex_material_def)
  from a b show ?thesis by simp
qed

text \<open>
  C3: with helpers that meet \<open>flux_helpers_contract\<close>, the scalar flux with which
  computeFlux enters its loop is zero in every region and group if
  \<open>only_fixed_source\<close> holds or the iteration counter is 0, and otherwise is the
  scalar flux the Solver held when the call was made.
\<close>

theorem computeFlux_initial_flux:
  assumes contract: "flux_helpers_contract b"
    and init: "computeFlux_init b s only_fixed_source = Inr s'"
  shows "scalar_flux s' =
           (if only_fixed_source \<or> num_iterations s = 0
            then Some (replicate (nat (num_FSRs s)) (replicate (nat (num_groups s)) 0))
            else scalar_flux s)
         \<and> computeFlux b s max_iters only_fixed_source = Inr (computeFlux_loop b max_iters 0 s')"
proof -
  define s1 where "s1 = emit TimerStart
                    (clearTimerSplits (emit (Log NORMAL ''Computing the flux...'' []) s))"
  have p1: "same_problem s s1"
    by (simp add: s1_def same_problem_def emit_def clearTimerSplits_def)
  from init obtain s2 s3 s6 s7 where
    pq: "initializePolarQuadrature b s1 = Inr s2" and
    ex: "initializeExpEvaluator b s2 = Inr s3" and
    fsr: "initializeFSRs (initializeSourceArrays b
            (if only_fixed_source \<or> num_iterations s3 = 0
             then flattenFSRFluxes b 0 (initializeFluxArrays b s3) else s3)) = Inr s6" and
    cnt: "countFissionableFSRs s6 = Inr s7" and
    s': "s' = computeFSRSources b (zeroTrackFluxes b s7)"
    unfolding computeFlux_init_def s1_def [symmetric] Let_def
    by (auto split: if_splits dest!: and_then_Inr)
  have p3: "same_problem s s3"
    using p1 initializePolarQuadrature_frame [OF pq] initializeExpEvaluator_frame [OF ex]
    by (simp add: same_problem_def)
  have "scalar_flux s' = scalar_flux s6"
    using contract countFissionableFSRs_frame [OF cnt]
    by (simp add: s' flux_helpers_contract_def same_problem_def)
  also have "\<dots> = scalar_flux (if only_fixed_source \<or> num_iterations s3 = 0
             then flattenFSRFluxes b 0 (initializeFluxArrays b s3) else s3)"
    using contract initializeFSRs_frame [OF fsr]
    by (simp add: flux_helpers_contract_def same_problem_def)
  also have "\<dots> = (if only_fixed_source \<or> num_iterations s = 0
            then Some (replicate (nat (num_FSRs s)) (replicate (nat (num_groups s)) 0))
            else scalar_flux s)"
    using contract p3 by (simp add: flux_helpers_contract_def same_problem_def)
  finally show ?thesis
    by (simp add: computeFlux_def init and_then_def)
qed

theorem computeFlux_initial_flux_witness:
  "(case computeFlux_init ex_backend ex_attached False of
      Inl x \<Rightarrow> None | Inr s' \<Rightarrow> scalar_flux s') = Some [[1, 2], [3, 4]]
   \<and> (case computeFlux_init ex_backend ex_attached True of
      Inl x \<Rightarrow> None | Inr s' \<Rightarrow> scalar_flux s') = Some [[0, 0], [0, 0]]"
proof -
  from ex_init_kept obtain s1 where k: "computeFlux_init ex_backend ex_attached False = Inr s1"
    by blast
  from ex_init_zeroed obtain s2 where z: "computeFlux_init ex_backend ex_attached True = Inr s2"
    by blast
  from computeFlux_initial_flux [OF ex_backend_contract k, of 0]
  have "scalar_flux s1 = Some [[1, 2], [3, 4]]"
    by (simp add: ex_attached_fields)
  moreover from computeFlux_initial_flux [OF ex_backend_contract z, of 0]
  have "scalar_flux s2 = Some [[0, 0], [0, 0]]"
    by (simp add: ex_attached_fields numeral_eq_Suc)
  ultimately show ?thesis
    by (simp add: k z)
qed

text \<open>
  C4: for an \<^verbatim>\<open>int\<close> group, getFSRScalarFlux, getFSRSource and
  setFixedSourceByFSR raise the range error exactly when \<open>fsr_id < 0\<close>,
  \<open>fsr_id \<ge> num_FSRs\<close>, \<open>group \<le> 0\<close> or \<open>group > num_groups\<close>;
  setFixedSourceByFSR returns normally exactly on \<open>[0, num_FSRs) \<times> [1, num_groups]\<close>;
  and the two queries raise the not-ready error exactly when the indices are in range
  and the scalar flux has never been allocated.
\<close>

theorem index_range_errors:
  assumes "is_int grp"
  shows "(getFSRScalarFlux s fsr_id grp = Inl OutOfRange) =
           (fsr_id < 0 \<or> fsr_id \<ge> num_FSRs s \<or> grp \<le> 0 \<or> grp > num_groups s)
       \<and> (getFSRSource s fsr_id grp = Inl OutOfRange) =
           (fsr_id < 0 \<or> fsr_id \<ge> num_FSRs s \<or> grp \<le> 0 \<or> grp > num_groups s)
       \<and> (setFixedSourceByFSR s fsr_id grp source = Inl (OutOfRange, s)) =
           (fsr_id < 0 \<or> fsr_id \<ge> num_FSRs s \<or> grp \<le> 0 \<or> grp > num_groups s)
       \<and> (setFixedSourceByFSR s fsr_id grp source = Inr s) =
           (0 \<le> fsr_id \<and> fsr_id < num_FSRs s \<and> 1 \<le> grp \<and> grp \<le> num_groups s)
       \<and> (getFSRScalarFlux s fsr_id grp = Inl NotReady) =
           (0 \<le> fsr_id \<and> fsr_id < num_FSRs s \<and> 1 \<le> grp \<and> grp \<le> num_groups s
            \<and> scalar_flux s = None)
       \<and> (getFSRSource s fsr_id grp = Inl NotReady) =
           (0 \<le> fsr_id \<and> fsr_id < num_FSRs s \<and> 1 \<le> grp \<and> grp \<le> num_groups s
            \<and> scalar_flux s = None)"
proof -
  note gc = group_check [OF assms, of "num_groups s"]
  have a: "(getFSRScalarFlux s fsr_id grp = Inl OutOfRange) =
           (fsr_id < 0 \<or> fsr_id \<ge> num_FSRs s \<or> grp \<le> 0 \<or> grp > num_groups s)"
    using gc by (auto simp: getFSRScalarFlux_def split: option.splits dest: read2_Inl)
  have b: "(getFSRSource s fsr_id grp = Inl OutOfRange) =
           (fsr_id < 0 \<or> fsr_id \<ge> num_FSRs s \<or> grp \<le> 0 \<or> grp > num_groups s)"
    using gc by (auto simp: getFSRSource_def split: option.splits sum.splits if_splits
                 dest: read2_Inl read_at_Inl fission_loop_Inl scatter_loop_Inl)
  have c: "(setFixedSourceByFSR s fsr_id grp source = Inl (OutOfRange, s)) =
           (fsr_id < 0 \<or> fsr_id \<ge> num_FSRs s \<or> grp \<le> 0 \<or> grp > num_groups s)"
    by (auto simp: setFixedSourceByFSR_def)
  have d: "(setFixedSourceByFSR s fsr_id grp source = Inr s) =
           (0 \<le> fsr_id \<and> fsr_id < num_FSRs s \<and> 1 \<le> grp \<and> grp \<le> num_groups s)"
    by (auto simp: setFixedSourceByFSR_def)
  have e: "(getFSRScalarFlux s fsr_id grp = Inl NotReady) =
           (0 \<le> fsr_id \<and> fsr_id < num_FSRs s \<and> 1 \<le> grp \<and> grp \<le> num_groups s
            \<and> scalar_flux s = None)"
    using gc by (auto simp: getFSRScalarFlux_def split: option.splits dest: read2_Inl)
  have f: "(getFSRSource s fsr_id grp = Inl NotReady) =
           (0 \<le> fsr_id \<and> fsr_id < num_FSRs s \<and> 1 \<le> grp \<and> grp \<le> num_groups s
            \<and> scalar_flux s = None)"
    using gc by (auto simp: getFSRSource_def split: option.splits sum.splits if_splits
                 dest: read2_Inl read_at_Inl fission_loop_Inl scatter_loop_Inl)
  from a b c d e f show ?thesis by blast
qed

theorem index_range_errors_witness:
  "getFSRScalarFlux ex_solver (- 1) 1 = Inl OutOfRange
   \<and> getFSRScalarFlux ex_solver 2 1 = Inl OutOfRange
   \<and> getFSRSource ex_solver 0 0 = Inl OutOfRange
   \<and> getFSRSource ex_solver 0 3 = Inl OutOfRange
   \<and> setFixedSourceByFSR ex_solver (- 1) 1 5 = Inl (OutOfRange, ex_solver)
   \<and> setFixedSourceByFSR ex_solver 2 1 5 = Inl (OutOfRange, ex_solver)
   \<and> setFixedSourceByFSR ex_solver 0 0 5 = Inl (OutOfRange, ex_solver)
   \<and> setFixedSourceByFSR ex_solver 0 3 5 = Inl (OutOfRange, ex_solver)
   \<and> setFixedSourceByFSR ex_solver 1 2 5 = Inr ex_solver
   \<and> getFSRScalarFlux (ex_solver\<lparr>scalar_flux := None\<rparr>) 1 2 = Inl NotReady
   \<and> getFSRSource (ex_solver\<lparr>scalar_flux := None\<rparr>) 1 2 = Inl NotReady"
  using index_range_errors [where grp = 1 and s = ex_solver and fsr_id = "- 1" and source = 5]
    index_range_errors [where grp = 1 and s = ex_solver and fsr_id = 2 and source = 5]
    index_range_errors [where grp = 0 and s = ex_solver and fsr_id = 0 and source = 5]
    index_range_errors [where grp = 3 and s = ex_solver and fsr_id = 0 and source = 5]
    index_range_errors [where grp = 2 and s = ex_solver and fsr_id = 1 and source = 5]
    index_range_errors [where grp = 2 and s = "ex_solver\<lparr>scalar_flux := None\<rparr>"
      and fsr_id = 1 and source = 5]
  by (simp add: is_int_def ex_solver_def)

text \<open>
  C5: computeSource called with \<open>k_eff \<le> 0\<close> raises before anything else is done,
  with the Solver exactly as it was (the stored k-effective, every flux and source
  array, and the trace with it); on a Solver with a track generator attached, which
  every solve requires, the error is the invalid-argument one.
\<close>

theorem computeSource_nonpositive_keff:
  assumes "k \<le> 0"
  shows "(\<exists>e. computeSource b s max_iters k res_type = Inl (e, s))
       \<and> (track_generator s \<noteq> None \<longrightarrow>
            computeSource b s max_iters k res_type = Inl (InvalidArgument, s))"
  using assms by (simp add: computeSource_def computeSource_init_def and_then_def)

theorem computeSource_nonpositive_keff_witness:
  "computeSource ex_backend ex_attached 10 (- 1) FISSION_SOURCE = Inl (InvalidArgument, ex_attached)
   \<and> computeSource ex_backend ex_solver 10 (- 1) FISSION_SOURCE = Inl (ConfigurationError, ex_solver)"
proof -
  have "computeSource ex_backend ex_attached 10 (- 1) FISSION_SOURCE = Inl (InvalidArgument, ex_attached)"
    using computeSource_nonpositive_keff [of "- 1" ex_backend ex_attached 10 FISSION_SOURCE]
    by (simp add: ex_attached_fields)
  moreover have "computeSource ex_backend ex_solver 10 (- 1) FISSION_SOURCE = Inl (ConfigurationError, ex_solver)"
    by (simp add: computeSource_def computeSource_init_def and_then_def ex_solver_fields)
  ultimately show ?thesis by simp
qed

text \<open>
  C6: setTrackGenerator on a source that reports no tracks raises the configuration
  error and leaves every field of the Solver as it was.  Whenever the call returns
  normally the source contains tracks, it is the attached generator, the azimuthal count
  is half the generator's, the track total is the generator's, the geometry is the
  generator's and the FSR, group and material counts are that geometry's, and the track
  array holds, from its start, the addresses of the tracks by azimuthal index and then by
  track index.  The call does return normally when the source contains tracks, its
  arrays cover the stored azimuthal angles, its track total covers the tracks listed and
  its geometry has FSRs.
\<close>

theorem setTrackGenerator_binding:
  "(\<not> tg_contains_tracks tg \<longrightarrow> setTrackGenerator s tg = Inl (ConfigurationError, s))
   \<and> (\<forall>s'. setTrackGenerator s tg = Inr s' \<longrightarrow>
        tg_contains_tracks tg
        \<and> track_generator s' = Some tg
        \<and> num_azim s' = trunc_div (tg_num_azim tg) 2
        \<and> tot_num_tracks s' = tg_num_tracks tg
        \<and> geometry s' = tg_geometry tg
        \<and> (\<exists>geo. tg_geometry tg = Some geo
               \<and> num_FSRs s' = geo_num_FSRs geo
               \<and> num_groups s' = geo_num_groups geo
               \<and> num_materials s' = geo_num_materials geo)
        \<and> (\<exists>arr rest. tracks s' = Some arr
               \<and> length arr = nat (tg_num_tracks tg)
               \<and> arr = concat (map (\<lambda>i. track_row i (tg_num_tracks_array tg ! nat i))
                                   [0..trunc_div (tg_num_azim tg) 2 - 1]) @ rest))
   \<and> (tg_contains_tracks tg \<longrightarrow> 0 \<le> tg_num_tracks tg \<longrightarrow>
        trunc_div (tg_num_azim tg) 2 \<le> int (length (tg_num_tracks_array tg)) \<longrightarrow>
        trunc_div (tg_num_azim tg) 2 \<le> int (length (tg_tracks tg)) \<longrightarrow>
        length (concat (map (\<lambda>i. track_row i (tg_num_tracks_array tg ! nat i))
                          [0..trunc_div (tg_num_azim tg) 2 - 1])) \<le> nat (tg_num_tracks tg) \<longrightarrow>
        (\<exists>geo. tg_geometry tg = Some geo \<and> geo_num_FSRs geo \<noteq> 0) \<longrightarrow>
        (\<exists>s'. setTrackGenerator s tg = Inr s'))"
proof (intro conjI allI impI)
  assume "\<not> tg_contains_tracks tg"
  then show "setTrackGenerator s tg = Inl (ConfigurationError, s)"
    by (simp add: setTrackGenerator_def)
next
  assume "tg_contains_tracks tg" "0 \<le> tg_num_tracks tg"
    "trunc_div (tg_num_azim tg) 2 \<le> int (length (tg_num_tracks_array tg))"
    "trunc_div (tg_num_azim tg) 2 \<le> int (length (tg_tracks tg))"
    "length (concat (map (\<lambda>i. track_row i (tg_num_tracks_array tg ! nat i))
                          [0..trunc_div (tg_num_azim tg) 2 - 1])) \<le> nat (tg_num_tracks tg)"
    "\<exists>geo. tg_geometry tg = Some geo \<and> geo_num_FSRs geo \<noteq> 0"
  then show "\<exists>s'. setTrackGenerator s tg = Inr s'"
    using setTrackGenerator_ok [of tg _ s] by blast
next
  fix s'
  assume ok: "setTrackGenerator s tg = Inr s'"
  define s2 where "s2 = s\<lparr>track_generator := Some tg,
                   num_azim := trunc_div (tg_num_azim tg) 2,
                   tot_num_tracks := tg_num_tracks tg,
                   tracks := Some (replicate (nat (tg_num_tracks tg)) None)\<rparr>"
  from ok have ct: "tg_contains_tracks tg" and nn: "\<not> tg_num_tracks tg < 0"
    by (auto simp: setTrackGenerator_def Let_def split: if_splits)
  from ok ct nn obtain arr c where
    outer: "tracks_outer tg (trunc_div (tg_num_azim tg) 2) 0
              (replicate (nat (tg_num_tracks tg)) None, 0) = Inr (arr, c)" and
    geo: "setGeometry (s2\<lparr>tracks := Some arr\<rparr>) (tg_geometry tg) = Inr s'"
    by (auto simp: setTrackGenerator_def Let_def s2_def split: sum.splits prod.splits)
  from geo obtain g where g: "tg_geometry tg = Some g" and
    s': "s' = s2\<lparr>tracks := Some arr, geometry := Some g, cmfd := geo_cmfd g,
                num_FSRs := geo_num_FSRs g, num_groups := geo_num_groups g,
                polar_times_groups := wrap_int (geo_num_groups g * num_polar s2),
                num_materials := geo_num_materials g\<rparr>"
    by (auto simp: setGeometry_def split: option.splits if_splits)
  from tracks_outer_result [OF outer]
  have t: "take (nat c) arr =
             concat (map (\<lambda>i. track_row i (tg_num_tracks_array tg ! nat i))
                       [0..trunc_div (tg_num_azim tg) 2 - 1])"
    and l: "length arr = nat (tg_num_tracks tg)"
    by auto
  have "arr = take (nat c) arr @ drop (nat c) arr" by simp
  with t have split: "arr = concat (map (\<lambda>i. track_row i (tg_num_tracks_array tg ! nat i))
                       [0..trunc_div (tg_num_azim tg) 2 - 1]) @ drop (nat c) arr"
    by simp
  show "tg_contains_tracks tg" by (rule ct)
  show "track_generator s' = Some tg" by (simp add: s' s2_def)
  show "num_azim s' = trunc_div (tg_num_azim tg) 2" by (simp add: s' s2_def)
  show "tot_num_tracks s' = tg_num_tracks tg" by (simp add: s' s2_def)
  show "geometry s' = tg_geometry tg" by (simp add: s' g)
  show "\<exists>geo. tg_geometry tg = Some geo
               \<and> num_FSRs s' = geo_num_FSRs geo
               \<and> num_groups s' = geo_num_groups geo
               \<and> num_materials s' = geo_num_materials geo"
    by (simp add: s' g)
  show "\<exists>arr rest. tracks s' = Some arr
               \<and> length arr = nat (tg_num_tracks tg)
               \<and> arr = concat (map (\<lambda>i. track_row i (tg_num_tracks_array tg ! nat i))
                                   [0..trunc_div (tg_num_azim tg) 2 - 1]) @ rest"
    using split l by (auto simp: s')
qed

theorem setTrackGenerator_binding_witness:
  "setTrackGenerator ex_solver (ex_track_generator\<lparr>tg_contains_tracks := False\<rparr>)
     = Inl (ConfigurationError, ex_solver)
   \<and> setTrackGenerator ex_solver ex_track_generator = Inr ex_attached
   \<and> tracks ex_attached = Some [Some (TrackPtr 0 0), Some (TrackPtr 0 1), Some (TrackPtr 1 0)]"
proof -
  have ok: "setTrackGenerator ex_solver ex_track_generator = Inr ex_attached"
    by (simp add: setTrackGenerator_def ex_track_generator_def ex_geometry_def ex_attached_def
          ex_solver_fields trunc_div_def Let_def tracks_outer.simps tracks_inner.simps
          read_at_def write_at_def setGeometry_def wrap_int_def numeral_eq_Suc)
  from setTrackGenerator_binding [of "ex_track_generator\<lparr>tg_contains_tracks := False\<rparr>" ex_solver]
  have "setTrackGenerator ex_solver (ex_track_generator\<lparr>tg_contains_tracks := False\<rparr>)
     = Inl (ConfigurationError, ex_solver)"
    by simp
  moreover from setTrackGenerator_binding [of ex_track_generator ex_solver] ok
  have "track_generator ex_attached = Some ex_track_generator" by blast
  ultimately show ?thesis
    using ok by (simp add: ex_attached_def)
qed

text \<open>
  C7: in interpolation mode, on a Solver with a track generator, initializeExpEvaluator
  calls the generator's segment splitting with the minimum of the generator's measured
  maximum optical length and the evaluator's configured one, then sets the evaluator's
  maximum optical length to that minimum, then initialises the table, in this order.
  In intrinsic mode it only hands the quadrature to the evaluator: no splitting, no new
  bound, no table.
\<close>

theorem initializeExpEvaluator_bound:
  "(exp_interpolate (exp_evaluator s) \<longrightarrow> track_generator s = Some tg \<longrightarrow>
      (\<exists>s'. initializeExpEvaluator b s = Inr s'
         \<and> trace s' = trace s @
             [EXP_setPolarQuadrature,
              TG_splitSegments (min (tg_max_optical_length tg) (exp_max_optical_length (exp_evaluator s))),
              EXP_setMaxOpticalLength (min (tg_max_optical_length tg) (exp_max_optical_length (exp_evaluator s))),
              EXP_initialize]
         \<and> exp_evaluator s' = exp_initialize b
             ((exp_evaluator s)\<lparr>exp_polar_quad := Some (polar_quad s),
                exp_max_optical_length :=
                  min (tg_max_optical_length tg) (exp_max_optical_length (exp_evaluator s))\<rparr>)
         \<and> track_generator s' = Some (tg_splitSegments b
               (min (tg_max_optical_length tg) (exp_max_optical_length (exp_evaluator s))) tg)))
   \<and> (\<not> exp_interpolate (exp_evaluator s) \<longrightarrow>
      (\<exists>s'. initializeExpEvaluator b s = Inr s'
         \<and> trace s' = trace s @ [EXP_setPolarQuadrature]
         \<and> exp_evaluator s' = (exp_evaluator s)\<lparr>exp_polar_quad := Some (polar_quad s)\<rparr>
         \<and> track_generator s' = track_generator s))"
  by (auto simp: initializeExpEvaluator_def emit_def Let_def min_def)

theorem initializeExpEvaluator_bound_witness:
  "(case initializeExpEvaluator ex_backend ex_attached of
      Inl x \<Rightarrow> None
    | Inr s' \<Rightarrow> Some (trace s', exp_max_optical_length (exp_evaluator s')))
     = Some ([EXP_setPolarQuadrature, TG_splitSegments 4, EXP_setMaxOpticalLength 4, EXP_initialize], 4)
   \<and> (case initializeExpEvaluator ex_backend
             (ex_attached\<lparr>exp_evaluator := (exp_evaluator ex_attached)\<lparr>exp_interpolate := False\<rparr>\<rparr>) of
      Inl x \<Rightarrow> None
    | Inr s' \<Rightarrow> Some (trace s', exp_max_optical_length (exp_evaluator s')))
     = Some ([EXP_setPolarQuadrature], 10)"
  using initializeExpEvaluator_bound [of ex_attached ex_track_generator ex_backend]
    initializeExpEvaluator_bound [of
      "ex_attached\<lparr>exp_evaluator := (exp_evaluator ex_attached)\<lparr>exp_interpolate := False\<rparr>\<rparr>"
      ex_track_generator ex_backend]
  by (auto simp: ex_attached_fields ex_track_generator_def ex_backend_def)

text \<open>
  C8: getFSRVolume raises its range error exactly when \<open>fsr_id < 0\<close> or
  \<open>fsr_id > num_FSRs\<close>, and the not-ready error exactly when the index passes that
  guard and the volume array is absent.  The boundary value \<open>fsr_id = num_FSRs\<close>
  passes the guard and is read from the volume array, whereas getFSRScalarFlux and
  getFSRSource reject it: their convention is the strict \<open>[0, num_FSRs)\<close>.
\<close>

theorem getFSRVolume_guard:
  "(getFSRVolume s fsr_id = Inl OutOfRange) = (fsr_id < 0 \<or> fsr_id > num_FSRs s)
   \<and> (getFSRVolume s fsr_id = Inl NotReady) =
       (0 \<le> fsr_id \<and> fsr_id \<le> num_FSRs s \<and> FSR_volumes s = None)
   \<and> (0 \<le> num_FSRs s \<longrightarrow> FSR_volumes s = Some vols \<longrightarrow>
        getFSRVolume s (num_FSRs s) = read_at vols (num_FSRs s))
   \<and> getFSRScalarFlux s (num_FSRs s) grp = Inl OutOfRange
   \<and> getFSRSource s (num_FSRs s) grp = Inl OutOfRange"
  by (auto simp: getFSRVolume_def getFSRScalarFlux_def getFSRSource_def
           split: option.splits dest: read_at_Inl)

theorem getFSRVolume_guard_witness:
  "getFSRVolume ex_solver 2 = Inl MemoryFault
   \<and> getFSRVolume ex_solver 3 = Inl OutOfRange
   \<and> getFSRVolume ex_solver 1 = Inr (5 / 2)
   \<and> getFSRScalarFlux ex_solver 2 1 = Inl OutOfRange
   \<and> getFSRSource ex_solver 2 1 = Inl OutOfRange"
  using getFSRVolume_guard [of ex_solver 3 "[3 / 2, 5 / 2]" 1]
  by (simp add: ex_solver_def getFSRVolume_def read_at_def)



end
